theory Spec2Isabelle
  imports Main
begin

section \<open>Python values and the library operations the helper relies on\<close>

text \<open>
  The embedding follows \<^verbatim>\<open>skills/grafana/references/query_helper.py\<close>.
  Python strings are modelled as \<^typ>\<open>string\<close>, one \<^typ>\<open>char\<close> per code point
  below 256; Python's unbounded integers are \<^typ>\<open>int\<close> (CPython's optional limit on
  the number of digits accepted by \<^verbatim>\<open>int(str)\<close> is not modelled).  Values that
  come out of \<^verbatim>\<open>json.loads\<close> are the datatype \<open>json\<close>; numbers are integers,
  floating-point numbers in a payload are outside the embedding.  A \<^verbatim>\<open>dict\<close> is an association
  list in insertion order, looked up with \<^const>\<open>map_of\<close>.

  Every exception is a value of \<open>pyerr\<close>; a function that may raise returns
  \<open>pyerr + 'a\<close>.  The string carried by an exception is what \<^verbatim>\<open>str(e)\<close>
  renders (for \<^verbatim>\<open>KeyError\<close> that is the \<^verbatim>\<open>repr\<close> of its argument).
\<close>

datatype pyerr =
    KeyError string
  | IndexError string
  | TypeError string
  | AttributeError string
  | ValueError string
  | OverflowError string
  | Exception string

datatype json =
    JNull
  | JBool bool
  | JInt int
  | JStr string
  | JArr "json list"
  | JObj "(string \<times> json) list"

fun str_of_err :: "pyerr \<Rightarrow> string" where
  "str_of_err (KeyError m) = m"
| "str_of_err (IndexError m) = m"
| "str_of_err (TypeError m) = m"
| "str_of_err (AttributeError m) = m"
| "str_of_err (ValueError m) = m"
| "str_of_err (OverflowError m) = m"
| "str_of_err (Exception m) = m"

subsection \<open>Characters and decimal numerals\<close>

definition squote :: char where "squote = CHR 0x27"
definition dquote :: char where "dquote = CHR 0x22"
definition backslash :: char where "backslash = CHR 0x5C"
definition newline :: char where "newline = CHR 0x0A"

definition is_digit :: "char \<Rightarrow> bool" where
  "is_digit c = (48 \<le> (of_char c :: nat) \<and> (of_char c :: nat) \<le> 57)"

definition digit_val :: "char \<Rightarrow> int" where
  "digit_val c = int (of_char c) - 48"

definition digit_chr :: "nat \<Rightarrow> char" where
  "digit_chr d = char_of (48 + d)"

text \<open>\<^verbatim>\<open>str.isspace\<close> on the code points below 256.\<close>

definition is_space :: "char \<Rightarrow> bool" where
  "is_space c = (let n = (of_char c :: nat) in
     (9 \<le> n \<and> n \<le> 13) \<or> (28 \<le> n \<and> n \<le> 32) \<or> n = 133 \<or> n = 160)"

text \<open>\<^verbatim>\<open>s.strip()\<close>\<close>

definition strip :: "string \<Rightarrow> string" where
  "strip s = rev (dropWhile is_space (rev (dropWhile is_space s)))"

text \<open>\<^verbatim>\<open>str(n)\<close> for an integer.\<close>

fun str_nat :: "nat \<Rightarrow> string" where
  "str_nat n = (if n < 10 then [digit_chr n] else str_nat (n div 10) @ [digit_chr (n mod 10)])"

declare str_nat.simps [simp del]

definition str_int :: "int \<Rightarrow> string" where
  "str_int i = (if i < 0 then CHR ''-'' # str_nat (nat (- i)) else str_nat (nat i))"

subsection \<open>\<^verbatim>\<open>repr\<close> of a string\<close>

definition hex_chr :: "nat \<Rightarrow> char" where
  "hex_chr d = (if d < 10 then char_of (48 + d) else char_of (87 + d))"

definition printable :: "char \<Rightarrow> bool" where
  "printable c = (let n = (of_char c :: nat) in
     32 \<le> n \<and> n \<noteq> 127 \<and> \<not> (128 \<le> n \<and> n \<le> 160) \<and> n \<noteq> 173)"

definition repr_chr :: "char \<Rightarrow> char \<Rightarrow> string" where
  "repr_chr q c =
     (if c = q \<or> c = backslash then [backslash, c]
      else if c = CHR 0x09 then [backslash, CHR ''t'']
      else if c = CHR 0x0A then [backslash, CHR ''n'']
      else if c = CHR 0x0D then [backslash, CHR ''r'']
      else if printable c then [c]
      else [backslash, CHR ''x'', hex_chr ((of_char c :: nat) div 16),
            hex_chr ((of_char c :: nat) mod 16)])"

definition repr_str :: "string \<Rightarrow> string" where
  "repr_str s =
     (let q = (if squote \<in> set s \<and> dquote \<notin> set s then dquote else squote)
      in [q] @ concat (map (repr_chr q) s) @ [q])"

subsection \<open>\<^verbatim>\<open>int(s)\<close> on a string\<close>

text \<open>
  Surrounding whitespace is dropped, one sign is allowed, and the rest must be decimal
  digits in which single underscores may separate digits.  The whitespace \<^verbatim>\<open>int()\<close>
  drops is narrower than that of \<^verbatim>\<open>str.strip\<close>: the separators \<^verbatim>\<open>\x1c\<close> to
  \<^verbatim>\<open>\x1f\<close> are not part of it.
\<close>

definition is_int_space :: "char \<Rightarrow> bool" where
  "is_int_space c = (let n = (of_char c :: nat) in
     (9 \<le> n \<and> n \<le> 13) \<or> n = 32 \<or> n = 133 \<or> n = 160)"

definition int_strip :: "string \<Rightarrow> string" where
  "int_strip s = rev (dropWhile is_int_space (rev (dropWhile is_int_space s)))"

fun digit_groups :: "string \<Rightarrow> bool" where
  "digit_groups [] = False"
| "digit_groups [c] = is_digit c"
| "digit_groups (c # d # s) =
     (is_digit c \<and> (if d = CHR ''_'' then digit_groups s else digit_groups (d # s)))"

definition digits_value :: "string \<Rightarrow> int" where
  "digits_value s = foldl (\<lambda>n c. 10 * n + digit_val c) 0 (filter is_digit s)"

definition int_of_str :: "string \<Rightarrow> pyerr + int" where
  "int_of_str s =
     (let t = int_strip s;
          neg = (t \<noteq> [] \<and> hd t = CHR ''-'');
          body = (if t \<noteq> [] \<and> (hd t = CHR ''-'' \<or> hd t = CHR ''+'') then tl t else t)
      in if digit_groups body
         then Inr (if neg then - digits_value body else digits_value body)
         else Inl (ValueError (''invalid literal for int() with base 10: '' @ repr_str s)))"

text \<open>
  Digits, whitespace, signs and underscores: a string that \<^verbatim>\<open>strip\<close> and
  \<^verbatim>\<open>int()\<close> accept holds no other character.
\<close>

definition numeric_char :: "char \<Rightarrow> bool" where
  "numeric_char c = (is_digit c \<or> is_space c \<or> c \<in> set ''+-_'')"

subsection \<open>Dynamic operations on values\<close>

text \<open>
  The formatters inspect untyped data; each operation below answers as CPython does
  for every kind of value.  Slicing a \<^verbatim>\<open>dict\<close> raises \<^verbatim>\<open>TypeError\<close>, as in
  CPython up to 3.11 (from 3.12 a slice is hashable and the lookup fails instead).
\<close>

definition bnd :: "pyerr + 'a \<Rightarrow> ('a \<Rightarrow> pyerr + 'b) \<Rightarrow> pyerr + 'b" where
  "bnd m f = (case m of Inl e \<Rightarrow> Inl e | Inr v \<Rightarrow> f v)"

definition join :: "string \<Rightarrow> string list \<Rightarrow> string" where
  "join sep xs = (case xs of [] \<Rightarrow> [] | y # ys \<Rightarrow> y @ concat (map (\<lambda>z. sep @ z) ys))"

fun truthy :: "json \<Rightarrow> bool" where
  "truthy JNull = False"
| "truthy (JBool b) = b"
| "truthy (JInt i) = (i \<noteq> 0)"
| "truthy (JStr s) = (s \<noteq> [])"
| "truthy (JArr xs) = (xs \<noteq> [])"
| "truthy (JObj kvs) = (kvs \<noteq> [])"

fun type_name :: "json \<Rightarrow> string" where
  "type_name JNull = ''NoneType''"
| "type_name (JBool b) = ''bool''"
| "type_name (JInt i) = ''int''"
| "type_name (JStr s) = ''str''"
| "type_name (JArr xs) = ''list''"
| "type_name (JObj kvs) = ''dict''"

definition quoted :: "string \<Rightarrow> string" where
  "quoted s = [squote] @ s @ [squote]"

definition not_subscriptable :: "json \<Rightarrow> pyerr" where
  "not_subscriptable x = TypeError (quoted (type_name x) @ '' object is not subscriptable'')"

text \<open>\<^verbatim>\<open>x.get(k, d)\<close>\<close>

fun py_get :: "json \<Rightarrow> string \<Rightarrow> json \<Rightarrow> pyerr + json" where
  "py_get (JObj kvs) k d = Inr (case map_of kvs k of Some v \<Rightarrow> v | None \<Rightarrow> d)"
| "py_get x k d =
     Inl (AttributeError (quoted (type_name x) @ '' object has no attribute '' @ quoted ''get''))"

text \<open>\<^verbatim>\<open>x[k]\<close> for a string \<open>k\<close>\<close>

fun py_getitem_str :: "json \<Rightarrow> string \<Rightarrow> pyerr + json" where
  "py_getitem_str (JObj kvs) k =
     (case map_of kvs k of Some v \<Rightarrow> Inr v | None \<Rightarrow> Inl (KeyError (repr_str k)))"
| "py_getitem_str (JArr xs) k =
     Inl (TypeError ''list indices must be integers or slices, not str'')"
| "py_getitem_str (JStr s) k =
     Inl (TypeError (''string indices must be integers, not '' @ quoted ''str''))"
| "py_getitem_str x k = Inl (not_subscriptable x)"

text \<open>\<^verbatim>\<open>x[i]\<close> for an integer \<open>i\<close>; a negative index counts from the end.\<close>

definition list_index :: "'a list \<Rightarrow> int \<Rightarrow> 'a option" where
  "list_index xs i =
     (if 0 \<le> i \<and> i < int (length xs) then Some (xs ! nat i)
      else if - int (length xs) \<le> i \<and> i < 0 then Some (xs ! nat (int (length xs) + i))
      else None)"

fun py_getitem_int :: "json \<Rightarrow> int \<Rightarrow> pyerr + json" where
  "py_getitem_int (JArr xs) i =
     (case list_index xs i of Some v \<Rightarrow> Inr v
      | None \<Rightarrow> Inl (IndexError ''list index out of range''))"
| "py_getitem_int (JStr s) i =
     (case list_index s i of Some c \<Rightarrow> Inr (JStr [c])
      | None \<Rightarrow> Inl (IndexError ''string index out of range''))"
| "py_getitem_int (JObj kvs) i = Inl (KeyError (str_int i))"
| "py_getitem_int x i = Inl (not_subscriptable x)"

text \<open>\<^verbatim>\<open>k in x\<close> for a string \<open>k\<close>\<close>

definition is_substring :: "string \<Rightarrow> string \<Rightarrow> bool" where
  "is_substring k s = list_ex (\<lambda>n. take (length k) (drop n s) = k) [0..<Suc (length s)]"

fun py_contains_str :: "string \<Rightarrow> json \<Rightarrow> pyerr + bool" where
  "py_contains_str k (JObj kvs) = Inr (map_of kvs k \<noteq> None)"
| "py_contains_str k (JArr xs) = Inr (JStr k \<in> set xs)"
| "py_contains_str k (JStr s) = Inr (is_substring k s)"
| "py_contains_str k x =
     Inl (TypeError (''argument of type '' @ quoted (type_name x) @ '' is not iterable''))"

text \<open>\<^verbatim>\<open>len(x)\<close>\<close>

fun py_len :: "json \<Rightarrow> pyerr + int" where
  "py_len (JArr xs) = Inr (int (length xs))"
| "py_len (JStr s) = Inr (int (length s))"
| "py_len (JObj kvs) = Inr (int (length kvs))"
| "py_len x = Inl (TypeError (''object of type '' @ quoted (type_name x) @ '' has no len()''))"

text \<open>The elements a \<^verbatim>\<open>for\<close> loop (or an unpacking) draws from \<open>x\<close>.\<close>

fun py_iter :: "json \<Rightarrow> pyerr + json list" where
  "py_iter (JArr xs) = Inr xs"
| "py_iter (JStr s) = Inr (map (\<lambda>c. JStr [c]) s)"
| "py_iter (JObj kvs) = Inr (map (\<lambda>kv. JStr (fst kv)) kvs)"
| "py_iter x = Inl (TypeError (quoted (type_name x) @ '' object is not iterable''))"

text \<open>\<^verbatim>\<open>x[:stop]\<close> and \<^verbatim>\<open>x[start:]\<close>\<close>

definition slice_to :: "'a list \<Rightarrow> int \<Rightarrow> 'a list" where
  "slice_to xs stop = (if stop < 0 then take (nat (int (length xs) + stop)) xs else take (nat stop) xs)"

definition slice_from :: "'a list \<Rightarrow> int \<Rightarrow> 'a list" where
  "slice_from xs start =
     (if start < 0 then drop (nat (int (length xs) + start)) xs else drop (nat start) xs)"

fun py_slice_to :: "json \<Rightarrow> int \<Rightarrow> pyerr + json" where
  "py_slice_to (JArr xs) stop = Inr (JArr (slice_to xs stop))"
| "py_slice_to (JStr s) stop = Inr (JStr (slice_to s stop))"
| "py_slice_to (JObj kvs) stop = Inl (TypeError (''unhashable type: '' @ quoted ''slice''))"
| "py_slice_to x stop = Inl (not_subscriptable x)"

fun py_slice_from :: "json \<Rightarrow> int \<Rightarrow> pyerr + json" where
  "py_slice_from (JArr xs) start = Inr (JArr (slice_from xs start))"
| "py_slice_from (JStr s) start = Inr (JStr (slice_from s start))"
| "py_slice_from (JObj kvs) start = Inl (TypeError (''unhashable type: '' @ quoted ''slice''))"
| "py_slice_from x start = Inl (not_subscriptable x)"

text \<open>\<^verbatim>\<open>a, b = x\<close>\<close>

definition unpack2 :: "json \<Rightarrow> pyerr + (json \<times> json)" where
  "unpack2 x =
     (case py_iter x of
        Inl e \<Rightarrow>
          Inl (TypeError (''cannot unpack non-iterable '' @ type_name x @ '' object''))
      | Inr ys \<Rightarrow>
          (case ys of
             [a, b] \<Rightarrow> Inr (a, b)
           | _ \<Rightarrow> if length ys < 2
                  then Inl (ValueError (''not enough values to unpack (expected 2, got ''
                                         @ str_nat (length ys) @ '')''))
                  else Inl (ValueError ''too many values to unpack (expected 2)'')))"

text \<open>\<^verbatim>\<open>int(x)\<close> on a value\<close>

fun py_int :: "json \<Rightarrow> pyerr + int" where
  "py_int (JInt i) = Inr i"
| "py_int (JBool b) = Inr (if b then 1 else 0)"
| "py_int (JStr s) = int_of_str s"
| "py_int x =
     Inl (TypeError (''int() argument must be a string, a bytes-like object or a real number, not ''
                     @ quoted (type_name x)))"

text \<open>\<^verbatim>\<open>isinstance(x, (int, float))\<close>: a \<^verbatim>\<open>bool\<close> is an \<^verbatim>\<open>int\<close>.\<close>

fun is_number :: "json \<Rightarrow> bool" where
  "is_number (JInt i) = True"
| "is_number (JBool b) = True"
| "is_number x = False"

fun number_val :: "json \<Rightarrow> int" where
  "number_val (JInt i) = i"
| "number_val (JBool b) = (if b then 1 else 0)"
| "number_val x = 0"

text \<open>
  \<^verbatim>\<open>f"{x:.2f}"\<close> for an integer.  The format converts the integer to a
  \<^verbatim>\<open>float\<close> first: to the nearest double, ties to the even mantissa, and
  \<^verbatim>\<open>OverflowError\<close> beyond the range of a double.  The double is a whole number, and
  its digits are printed in full.
\<close>

fun bit_length :: "nat \<Rightarrow> nat" where
  "bit_length n = (if n = 0 then 0 else Suc (bit_length (n div 2)))"

declare bit_length.simps [simp del]

definition nearest_double :: "int \<Rightarrow> int option" where
  "nearest_double i =
     (let a = nat \<bar>i\<bar>; n = bit_length a in
      if n \<le> 53 then Some i
      else let e = n - 53;
               q = a div 2 ^ e;
               r = a mod 2 ^ e;
               half = 2 ^ (e - 1);
               m = (if r > half \<or> (r = half \<and> odd q) then q + 1 else q) * 2 ^ e
           in if m \<ge> 2 ^ 1024 then None
              else Some (if i < 0 then - int m else int m))"

definition fmt_2f :: "int \<Rightarrow> pyerr + string" where
  "fmt_2f i =
     (case nearest_double i of
        None \<Rightarrow> Inl (OverflowError ''int too large to convert to float'')
      | Some d \<Rightarrow> Inr (str_int d @ ''.00''))"

text \<open>\<^verbatim>\<open>repr(x)\<close> and \<^verbatim>\<open>str(x)\<close>, the latter being what an f-string inserts.\<close>

fun py_repr :: "json \<Rightarrow> string" where
  "py_repr JNull = ''None''"
| "py_repr (JBool b) = (if b then ''True'' else ''False'')"
| "py_repr (JInt i) = str_int i"
| "py_repr (JStr s) = repr_str s"
| "py_repr (JArr xs) = ''['' @ join '', '' (map py_repr xs) @ '']''"
| "py_repr (JObj kvs) =
     ''{'' @ join '', '' (map (\<lambda>kv. repr_str (fst kv) @ '': '' @ py_repr (snd kv)) kvs) @ ''}''"

fun py_str :: "json \<Rightarrow> string" where
  "py_str (JStr s) = s"
| "py_str x = py_repr x"

subsection \<open>\<^verbatim>\<open>json.dumps(x, indent=2)\<close>\<close>

definition hex4 :: "nat \<Rightarrow> string" where
  "hex4 n = [hex_chr (n div 4096 mod 16), hex_chr (n div 256 mod 16),
             hex_chr (n div 16 mod 16), hex_chr (n mod 16)]"

definition json_esc_chr :: "char \<Rightarrow> string" where
  "json_esc_chr c =
     (if c = dquote \<or> c = backslash then [backslash, c]
      else if c = CHR 0x08 then [backslash, CHR ''b'']
      else if c = CHR 0x0C then [backslash, CHR ''f'']
      else if c = CHR 0x0A then [backslash, CHR ''n'']
      else if c = CHR 0x0D then [backslash, CHR ''r'']
      else if c = CHR 0x09 then [backslash, CHR ''t'']
      else if 32 \<le> (of_char c :: nat) \<and> (of_char c :: nat) \<le> 126 then [c]
      else [backslash, CHR ''u''] @ hex4 (of_char c))"

definition json_str :: "string \<Rightarrow> string" where
  "json_str s = [dquote] @ concat (map json_esc_chr s) @ [dquote]"

definition nl_indent :: "nat \<Rightarrow> string" where
  "nl_indent lvl = newline # replicate (2 * lvl) CHR '' ''"

fun dumps_at :: "nat \<Rightarrow> json \<Rightarrow> string" where
  "dumps_at lvl JNull = ''null''"
| "dumps_at lvl (JBool b) = (if b then ''true'' else ''false'')"
| "dumps_at lvl (JInt i) = str_int i"
| "dumps_at lvl (JStr s) = json_str s"
| "dumps_at lvl (JArr xs) =
     (if xs = [] then ''[]''
      else ''['' @ nl_indent (Suc lvl)
           @ join ('','' @ nl_indent (Suc lvl)) (map (dumps_at (Suc lvl)) xs)
           @ nl_indent lvl @ '']'')"
| "dumps_at lvl (JObj kvs) =
     (if kvs = [] then ''{}''
      else ''{'' @ nl_indent (Suc lvl)
           @ join ('','' @ nl_indent (Suc lvl))
               (map (\<lambda>kv. json_str (fst kv) @ '': '' @ dumps_at (Suc lvl) (snd kv)) kvs)
           @ nl_indent lvl @ ''}'')"

definition json_dumps :: "json \<Rightarrow> string" where
  "json_dumps x = dumps_at 0 x"

subsection \<open>Local time\<close>

text \<open>
  \<^verbatim>\<open>datetime.fromtimestamp(t).strftime(fmt)\<close> depends on the time zone of the process,
  so the two renderings the formatters use are parameters: \<open>hms\<close> for
  \<^verbatim>\<open>"%H:%M:%S"\<close> and \<open>ymdhms\<close> for \<^verbatim>\<open>"%Y-%m-%d %H:%M:%S"\<close>, both from
  a whole number of epoch seconds, and \<open>None\<close> where the conversion raises (a value
  outside the range of \<^verbatim>\<open>datetime\<close>).  CPython raises \<^verbatim>\<open>ValueError\<close>,
  \<^verbatim>\<open>OverflowError\<close> or \<^verbatim>\<open>OSError\<close> there, by magnitude and platform, never a
  \<^verbatim>\<open>KeyError\<close> nor an \<^verbatim>\<open>IndexError\<close>; the model stands for all of them with one
  \<^verbatim>\<open>ValueError\<close>.  Within the range of \<^verbatim>\<open>datetime\<close> a count of milliseconds is
  below \<open>2\<^sup>5\<^sup>3\<close>, so its conversion to \<^verbatim>\<open>float\<close> is exact.  A millisecond count \<open>n\<close> reaches
  \<^verbatim>\<open>fromtimestamp\<close> as the quotient \<^verbatim>\<open>n / 1000\<close>, whose second is
  \<open>n div 1000\<close>.
\<close>

record clock =
  hms :: "int \<Rightarrow> string option"
  ymdhms :: "int \<Rightarrow> string option"

definition render_time :: "string option \<Rightarrow> pyerr + string" where
  "render_time r = (case r of Some t \<Rightarrow> Inr t | None \<Rightarrow> Inl (ValueError ''timestamp out of range''))"

text \<open>\<^verbatim>\<open>datetime.fromtimestamp(x / 1000).strftime("%Y-%m-%d %H:%M:%S")\<close>\<close>

fun ms_time_str :: "clock \<Rightarrow> json \<Rightarrow> pyerr + string" where
  "ms_time_str clk (JInt n) = render_time (ymdhms clk (n div 1000))"
| "ms_time_str clk (JBool b) = render_time (ymdhms clk 0)"
| "ms_time_str clk x =
     Inl (TypeError (''unsupported operand type(s) for /: '' @ quoted (type_name x)
                     @ '' and '' @ quoted ''int''))"

text \<open>
  A process whose local time is UTC.  The year is printed as glibc prints \<^verbatim>\<open>%Y\<close>,
  without padding.
\<close>

definition pad2 :: "int \<Rightarrow> string" where
  "pad2 i = (if i < 10 then CHR ''0'' # str_int i else str_int i)"

definition clock_text :: "int \<Rightarrow> string" where
  "clock_text t =
     (let s = t mod 86400
      in pad2 (s div 3600) @ '':'' @ pad2 (s mod 3600 div 60) @ '':'' @ pad2 (s mod 60))"

definition civil_from_days :: "int \<Rightarrow> int \<times> int \<times> int" where
  "civil_from_days days =
     (let z = days + 719468;
          era = z div 146097;
          doe = z mod 146097;
          yoe = (doe - doe div 1460 + doe div 36524 - doe div 146096) div 365;
          doy = doe - (365 * yoe + yoe div 4 - yoe div 100);
          mp = (5 * doy + 2) div 153;
          d = doy - (153 * mp + 2) div 5 + 1;
          m = (if mp < 10 then mp + 3 else mp - 9);
          y = yoe + era * 400 + (if m \<le> 2 then 1 else 0)
      in (y, m, d))"

definition in_datetime_range :: "int \<Rightarrow> bool" where
  "in_datetime_range t = (- 62135596800 \<le> t \<and> t \<le> 253402300799)"

definition utc_hms :: "int \<Rightarrow> string option" where
  "utc_hms t = (if in_datetime_range t then Some (clock_text t) else None)"

definition utc_ymdhms :: "int \<Rightarrow> string option" where
  "utc_ymdhms t =
     (if in_datetime_range t
      then (case civil_from_days (t div 86400) of
              (y, m, d) \<Rightarrow> Some (str_int y @ ''-'' @ pad2 m @ ''-'' @ pad2 d @ '' '' @ clock_text t))
      else None)"

definition utc_clock :: clock where
  "utc_clock = \<lparr> hms = utc_hms, ymdhms = utc_ymdhms \<rparr>"

section \<open>Result formatting\<close>

text \<open>
  A \<^verbatim>\<open>for\<close> loop that appends lines: the body yields the lines of one element, and
  an exception in any element abandons the loop.
\<close>

fun for_each :: "('a \<Rightarrow> pyerr + string list) \<Rightarrow> 'a list \<Rightarrow> pyerr + string list" where
  "for_each body [] = Inr []"
| "for_each body (x # xs) =
     bnd (body x) (\<lambda>ls. bnd (for_each body xs) (\<lambda>rest. Inr (ls @ rest)))"

text \<open>\<^verbatim>\<open>f"{v:.2f}" if isinstance(v, (int, float)) else str(v)\<close>\<close>

definition value_text :: "json \<Rightarrow> pyerr + string" where
  "value_text v = (if is_number v then fmt_2f (number_val v) else Inr (py_str v))"

subsection \<open>\<^verbatim>\<open>format_prometheus_result\<close>: the native envelope\<close>

text \<open>\<^verbatim>\<open>metric.get("instance") or metric.get("job") or "Series"\<close>\<close>

definition series_label :: "json \<Rightarrow> pyerr + json" where
  "series_label metric =
     bnd (py_get metric ''instance'' JNull) (\<lambda>i.
       if truthy i then Inr i
       else bnd (py_get metric ''job'' JNull) (\<lambda>j.
         if truthy j then Inr j else Inr (JStr ''Series'')))"

definition native_simple_line :: "json \<Rightarrow> pyerr + string list" where
  "native_simple_line series =
     bnd (py_get series ''metric'' (JObj [])) (\<lambda>metric.
     bnd (py_get series ''values'' (JArr [])) (\<lambda>values.
     bnd (series_label metric) (\<lambda>instance.
       if truthy values
       then bnd (py_getitem_int values (- 1)) (\<lambda>latest.
            bnd (unpack2 latest) (\<lambda>p.
              Inr [py_str instance @ '': '' @ py_str (snd p)]))
       else Inr [])))"

definition more_series_line :: "int \<Rightarrow> int \<Rightarrow> string list" where
  "more_series_line n max_series =
     (if n > max_series then [''... and '' @ str_int (n - max_series) @ '' more series''] else [])"

definition more_series_row :: "int \<Rightarrow> int \<Rightarrow> string list" where
  "more_series_row n max_series =
     (if n > max_series
      then [''| ... | ('' @ str_int (n - max_series) @ '' more series) | ... |''] else [])"

definition native_table_row :: "clock \<Rightarrow> string \<Rightarrow> json \<Rightarrow> pyerr + string list" where
  "native_table_row clk metric_name point =
     bnd (unpack2 point) (\<lambda>p.
     bnd (py_int (fst p)) (\<lambda>t.
     bnd (render_time (hms clk t)) (\<lambda>time_str.
       Inr [''| '' @ time_str @ '' | '' @ take 30 metric_name @ '' | '' @ py_str (snd p) @ '' |''])))"

definition native_table_rows :: "clock \<Rightarrow> int \<Rightarrow> json \<Rightarrow> pyerr + string list" where
  "native_table_rows clk max_points series =
     bnd (py_get series ''metric'' (JObj [])) (\<lambda>metric.
     bnd (py_get series ''values'' (JArr [])) (\<lambda>values.
     bnd (py_get metric ''instance'' (JStr [])) (\<lambda>instance.
     bnd (py_get metric ''job'' (JStr [])) (\<lambda>job.
       let metric_name = (if truthy job \<and> truthy instance
                          then py_str job @ ''/'' @ py_str instance else py_str metric)
       in bnd (py_slice_from values (- max_points)) (\<lambda>shown.
          bnd (py_iter shown) (\<lambda>points.
            for_each (native_table_row clk metric_name) points))))))"

definition native_table_header :: "string list" where
  "native_table_header = [''| Time | Metric | Value |'', ''|------|--------|-------|'']"

definition series_table_header :: "string list" where
  "series_table_header = [''| Time | Series | Value |'', ''|------|--------|-------|'']"

subsection \<open>\<^verbatim>\<open>format_series_data\<close>: frames and legacy series\<close>

definition frame_name :: "json \<Rightarrow> pyerr + json" where
  "frame_name frame =
     bnd (py_get frame ''schema'' (JObj [])) (\<lambda>schema. py_get schema ''name'' (JStr ''Series''))"

definition frame_values :: "json \<Rightarrow> pyerr + json" where
  "frame_values frame =
     bnd (py_get frame ''data'' (JObj [])) (\<lambda>d. py_get d ''values'' (JArr []))"

definition frame_simple_line :: "json \<Rightarrow> pyerr + string list" where
  "frame_simple_line frame =
     bnd (frame_name frame) (\<lambda>name.
     bnd (frame_values frame) (\<lambda>values.
     bnd (py_len values) (\<lambda>n.
       if n \<ge> 2
       then bnd (py_getitem_int values 1) (\<lambda>vals.
              if truthy vals
              then bnd (if truthy vals then py_getitem_int vals (- 1) else Inr (JStr ''N/A''))
                     (\<lambda>latest. Inr [py_str name @ '': '' @ py_str latest])
              else Inr [])
       else Inr [])))"

definition frame_table_row :: "clock \<Rightarrow> json \<Rightarrow> json \<Rightarrow> json \<Rightarrow> int \<Rightarrow> pyerr + string list" where
  "frame_table_row clk name tcol vals i =
     bnd (py_getitem_int tcol i) (\<lambda>t.
     bnd (ms_time_str clk t) (\<lambda>timestamp.
     bnd (py_getitem_int vals i) (\<lambda>v.
     bnd (value_text v) (\<lambda>value_str.
       Inr [''| '' @ timestamp @ '' | '' @ py_str name @ '' | '' @ value_str @ '' |'']))))"

definition frame_table_rows :: "clock \<Rightarrow> json \<Rightarrow> pyerr + string list" where
  "frame_table_rows clk frame =
     bnd (frame_name frame) (\<lambda>name.
     bnd (frame_values frame) (\<lambda>values.
     bnd (py_len values) (\<lambda>n.
       if n \<ge> 2
       then bnd (py_getitem_int values 0) (\<lambda>tcol.
            bnd (py_getitem_int values 1) (\<lambda>vals.
            bnd (py_len tcol) (\<lambda>m.
              for_each (frame_table_row clk name tcol vals) [max 0 (m - 10)..m - 1])))
       else Inr [])))"

definition series_simple_line :: "json \<Rightarrow> pyerr + string list" where
  "series_simple_line series =
     bnd (py_get series ''name'' (JStr ''Series'')) (\<lambda>name.
     bnd (py_get series ''points'' (JArr [])) (\<lambda>points.
       if truthy points
       then bnd (py_getitem_int points (- 1)) (\<lambda>latest_point.
            bnd (if truthy latest_point then py_getitem_int latest_point 0 else Inr (JStr ''N/A''))
              (\<lambda>latest_value. Inr [py_str name @ '': '' @ py_str latest_value]))
       else Inr []))"

definition series_table_row :: "clock \<Rightarrow> json \<Rightarrow> json \<Rightarrow> pyerr + string list" where
  "series_table_row clk name point =
     bnd (py_len point) (\<lambda>n.
       if n \<ge> 2
       then bnd (py_getitem_int point 0) (\<lambda>v.
            bnd (py_getitem_int point 1) (\<lambda>timestamp.
            bnd (ms_time_str clk timestamp) (\<lambda>time_str.
            bnd (value_text v) (\<lambda>value_str.
            bnd (py_slice_to name 40) (\<lambda>shown.
              Inr [''| '' @ time_str @ '' | '' @ py_str shown @ ''... | '' @ value_str @ '' |''])))))
       else Inr [])"

definition series_table_rows :: "clock \<Rightarrow> json \<Rightarrow> pyerr + string list" where
  "series_table_rows clk series =
     bnd (py_get series ''name'' (JStr ''Series'')) (\<lambda>name.
     bnd (py_get series ''points'' (JArr [])) (\<lambda>points.
     bnd (py_slice_from points (- 5)) (\<lambda>shown.
     bnd (py_iter shown) (\<lambda>pts.
       for_each (series_table_row clk name) pts))))"

text \<open>The body of the \<^verbatim>\<open>try\<close> block.\<close>

definition format_frames :: "clock \<Rightarrow> json \<Rightarrow> string \<Rightarrow> pyerr + string" where
  "format_frames clk frames format_type =
     (if \<not> truthy frames then Inr ''No data points''
      else if format_type = ''simple''
      then bnd (py_iter frames) (\<lambda>fs.
           bnd (for_each frame_simple_line fs) (\<lambda>lines. Inr (join [newline] lines)))
      else bnd (py_iter frames) (\<lambda>fs.
           bnd (for_each (frame_table_rows clk) fs) (\<lambda>lines.
             Inr (join [newline] (series_table_header @ lines)))))"

definition format_series_list :: "clock \<Rightarrow> json \<Rightarrow> string \<Rightarrow> pyerr + string" where
  "format_series_list clk series_list format_type =
     (if \<not> truthy series_list then Inr ''No data points''
      else if format_type = ''simple''
      then bnd (py_slice_to series_list 20) (\<lambda>shown.
           bnd (py_iter shown) (\<lambda>ss.
           bnd (for_each series_simple_line ss) (\<lambda>lines.
           bnd (py_len series_list) (\<lambda>n.
             Inr (join [newline] (lines @ more_series_line n 20))))))
      else bnd (py_slice_to series_list 10) (\<lambda>shown.
           bnd (py_iter shown) (\<lambda>ss.
           bnd (for_each (series_table_rows clk) ss) (\<lambda>lines.
           bnd (py_len series_list) (\<lambda>n.
             Inr (join [newline] (series_table_header @ lines @ more_series_row n 10)))))))"

definition format_series_try :: "clock \<Rightarrow> json \<Rightarrow> string \<Rightarrow> pyerr + string" where
  "format_series_try clk result format_type =
     bnd (py_getitem_str result ''results'') (\<lambda>rs.
     bnd (py_getitem_str rs ''A'') (\<lambda>result_data.
     bnd (py_contains_str ''frames'' result_data) (\<lambda>has_frames.
       if has_frames
       then bnd (py_getitem_str result_data ''frames'') (\<lambda>frames.
              format_frames clk frames format_type)
       else bnd (py_contains_str ''series'' result_data) (\<lambda>has_series.
         if has_series
         then bnd (py_getitem_str result_data ''series'') (\<lambda>series_list.
                format_series_list clk series_list format_type)
         else Inr ''Unknown response format''))))"

text \<open>\<^verbatim>\<open>except (KeyError, IndexError) as e\<close>: any other exception propagates.\<close>

definition error_text :: "string \<Rightarrow> json \<Rightarrow> string" where
  "error_text m result = ''Error formatting data: '' @ m @ [newline] @ json_dumps result"

definition format_series_data :: "clock \<Rightarrow> json \<Rightarrow> string \<Rightarrow> pyerr + string" where
  "format_series_data clk result format_type =
     (if \<not> truthy result then Inr ''No data''
      else bnd (py_contains_str ''results'' result) (\<lambda>has_results.
        if \<not> has_results then Inr ''No data''
        else if format_type = ''json'' then Inr (json_dumps result)
        else case format_series_try clk result format_type of
               Inl (KeyError m) \<Rightarrow> Inr (error_text m result)
             | Inl (IndexError m) \<Rightarrow> Inr (error_text m result)
             | r \<Rightarrow> r))"

definition format_prometheus_result ::
    "clock \<Rightarrow> json \<Rightarrow> string \<Rightarrow> int \<Rightarrow> int \<Rightarrow> pyerr + string" where
  "format_prometheus_result clk result format_type max_series max_points =
     (if \<not> truthy result then Inr ''No data''
      else bnd (py_get result ''status'' JNull) (\<lambda>status.
        if status = JStr ''success''
        then bnd (py_get result ''data'' (JObj [])) (\<lambda>data.
             bnd (py_get data ''result'' (JArr [])) (\<lambda>results.
               if \<not> truthy results then Inr ''No data points''
               else if format_type = ''json'' then Inr (json_dumps result)
               else if format_type = ''simple''
               then bnd (py_slice_to results max_series) (\<lambda>shown.
                    bnd (py_iter shown) (\<lambda>ss.
                    bnd (for_each native_simple_line ss) (\<lambda>lines.
                    bnd (py_len results) (\<lambda>n.
                      Inr (join [newline] (lines @ more_series_line n max_series))))))
               else bnd (py_slice_to results max_series) (\<lambda>shown.
                    bnd (py_iter shown) (\<lambda>ss.
                    bnd (for_each (native_table_rows clk max_points) ss) (\<lambda>lines.
                    bnd (py_len results) (\<lambda>n.
                      Inr (join [newline]
                             (native_table_header @ lines @ more_series_row n max_series))))))))
        else format_series_data clk result format_type))"

section \<open>Time-range parsing\<close>

text \<open>
  \<^verbatim>\<open>_parse_duration_to_seconds\<close>: the table \<^verbatim>\<open>units\<close>, then the last character
  of the stripped string decides.  \<^verbatim>\<open>duration[-1]\<close> on an empty string raises
  \<^verbatim>\<open>IndexError\<close>.
\<close>

definition duration_units :: "(char \<times> int) list" where
  "duration_units =
     [(CHR ''s'', 1), (CHR ''m'', 60), (CHR ''h'', 3600), (CHR ''d'', 86400), (CHR ''w'', 604800)]"

definition parse_duration_to_seconds :: "string \<Rightarrow> pyerr + int" where
  "parse_duration_to_seconds duration0 =
     (let duration = strip duration0 in
      if duration = [] then Inl (IndexError ''string index out of range'')
      else case map_of duration_units (last duration) of
             Some u \<Rightarrow>
               (case int_of_str (butlast duration) of
                  Inl e \<Rightarrow> Inl e
                | Inr v \<Rightarrow> Inr (v * u))
           | None \<Rightarrow> int_of_str duration)"

text \<open>
  \<^verbatim>\<open>_parse_time_range\<close>: the gateway path's parser.  The \<^verbatim>\<open>startswith\<close> test comes
  before the strip; \<^verbatim>\<open>time_range[-1]\<close> on an empty string raises \<^verbatim>\<open>IndexError\<close>.
\<close>

definition startswith :: "string \<Rightarrow> string \<Rightarrow> bool" where
  "startswith s p = (take (length p) s = p)"

definition time_range_units :: "(char \<times> string) list" where
  "time_range_units =
     [(CHR ''s'', ''seconds''), (CHR ''m'', ''minutes''), (CHR ''h'', ''hours''),
      (CHR ''d'', ''days''), (CHR ''w'', ''weeks'')]"

definition parse_time_range :: "string \<Rightarrow> pyerr + (string \<times> string)" where
  "parse_time_range time_range0 =
     (if startswith time_range0 ''now'' then Inr (''now-'' @ drop 3 time_range0, ''now'')
      else let time_range = strip time_range0 in
        if time_range = [] then Inl (IndexError ''string index out of range'')
        else if map_of time_range_units (last time_range) \<noteq> None
             then Inr (''now-'' @ time_range, ''now'')
             else Inr (''now-1h'', ''now''))"

section \<open>Query dispatch\<close>

text \<open>
  The helper object holds what \<^verbatim>\<open>__init__\<close> read from the configuration file.  The
  datasource mapping is a \<^verbatim>\<open>dict\<close> from display name to an entry.
\<close>

record helper =
  grafana_url :: string
  api_token :: string
  datasources :: "(string \<times> json) list"

text \<open>
  One call of \<^verbatim>\<open>urllib.request.urlopen\<close> followed by
  \<^verbatim>\<open>json.loads(response.read())\<close> either yields the decoded body of a 2xx response,
  or raises \<^verbatim>\<open>HTTPError\<close> (status code, reason, and the body when \<^verbatim>\<open>e.fp\<close> is
  set), or raises \<^verbatim>\<open>URLError\<close> (reason), or raises something else, which no handler
  of the loop catches (a 2xx body that is not JSON, for instance).
\<close>

datatype http_outcome =
    Response json
  | HTTPError int string "string option"
  | URLError string
  | Raises pyerr

record request =
  req_method :: string
  req_url :: string
  req_headers :: "(string \<times> string) list"
  req_data :: "json option"

text \<open>
  What a call does to the outside: requests sent and seconds slept, in order.  The
  network answers the \<open>k\<close>-th attempt of a call.
\<close>

datatype event = Sent request | Slept int

type_synonym transport = "nat \<Rightarrow> request \<Rightarrow> http_outcome"

definition http_failure :: "int \<Rightarrow> string \<Rightarrow> string option \<Rightarrow> pyerr" where
  "http_failure code reason fp =
     Exception (''Query failed: HTTP '' @ str_int code @ '' - '' @ reason @ [newline]
                @ ''Response: '' @ (case fp of Some body \<Rightarrow> body | None \<Rightarrow> []))"

definition connection_failure :: "string \<Rightarrow> pyerr" where
  "connection_failure reason = Exception (''Connection failed: '' @ reason)"

text \<open>
  The loop \<^verbatim>\<open>for attempt in range(max_retries)\<close> of \<^verbatim>\<open>query_prometheus_direct\<close>.
  Falling out of the loop returns \<^verbatim>\<open>None\<close>.
\<close>

function direct_attempts ::
    "transport \<Rightarrow> request \<Rightarrow> int \<Rightarrow> int \<Rightarrow> event list \<Rightarrow> (pyerr + json) \<times> event list" where
  "direct_attempts net req max_retries attempt tr =
     (if attempt < max_retries
      then (case net (nat attempt) req of
              Response body \<Rightarrow> (Inr body, tr @ [Sent req])
            | HTTPError code reason fp \<Rightarrow>
                if attempt = max_retries - 1
                then (Inl (http_failure code reason fp), tr @ [Sent req])
                else direct_attempts net req max_retries (attempt + 1)
                       (tr @ [Sent req, Slept (1 * (attempt + 1))])
            | URLError reason \<Rightarrow>
                if attempt = max_retries - 1
                then (Inl (connection_failure reason), tr @ [Sent req])
                else direct_attempts net req max_retries (attempt + 1)
                       (tr @ [Sent req, Slept (1 * (attempt + 1))])
            | Raises e \<Rightarrow> (Inl e, tr @ [Sent req]))
      else (Inr JNull, tr))"
  by pat_completeness auto
termination
  by (relation "measure (\<lambda>(net, req, max_retries, attempt, tr). nat (max_retries - attempt))") auto

declare direct_attempts.simps [simp del]

text \<open>The loop of \<^verbatim>\<open>query_prometheus_absolute\<close>.\<close>

function absolute_attempts ::
    "transport \<Rightarrow> request \<Rightarrow> int \<Rightarrow> int \<Rightarrow> event list \<Rightarrow> (pyerr + json) \<times> event list" where
  "absolute_attempts net req max_retries attempt tr =
     (if attempt < max_retries
      then (case net (nat attempt) req of
              Response body \<Rightarrow> (Inr body, tr @ [Sent req])
            | HTTPError code reason fp \<Rightarrow>
                if attempt = max_retries - 1
                then (Inl (http_failure code reason fp), tr @ [Sent req])
                else absolute_attempts net req max_retries (attempt + 1)
                       (tr @ [Sent req, Slept (1 * (attempt + 1))])
            | URLError reason \<Rightarrow>
                if attempt = max_retries - 1
                then (Inl (connection_failure reason), tr @ [Sent req])
                else absolute_attempts net req max_retries (attempt + 1)
                       (tr @ [Sent req, Slept (1 * (attempt + 1))])
            | Raises e \<Rightarrow> (Inl e, tr @ [Sent req]))
      else (Inr JNull, tr))"
  by pat_completeness auto
termination
  by (relation "measure (\<lambda>(net, req, max_retries, attempt, tr). nat (max_retries - attempt))") auto

declare absolute_attempts.simps [simp del]

text \<open>The loop of \<^verbatim>\<open>query_prometheus\<close>.\<close>

function gateway_attempts ::
    "transport \<Rightarrow> request \<Rightarrow> int \<Rightarrow> int \<Rightarrow> event list \<Rightarrow> (pyerr + json) \<times> event list" where
  "gateway_attempts net req max_retries attempt tr =
     (if attempt < max_retries
      then (case net (nat attempt) req of
              Response body \<Rightarrow> (Inr body, tr @ [Sent req])
            | HTTPError code reason fp \<Rightarrow>
                if attempt = max_retries - 1
                then (Inl (http_failure code reason fp), tr @ [Sent req])
                else gateway_attempts net req max_retries (attempt + 1)
                       (tr @ [Sent req, Slept (1 * (attempt + 1))])
            | URLError reason \<Rightarrow>
                if attempt = max_retries - 1
                then (Inl (connection_failure reason), tr @ [Sent req])
                else gateway_attempts net req max_retries (attempt + 1)
                       (tr @ [Sent req, Slept (1 * (attempt + 1))])
            | Raises e \<Rightarrow> (Inl e, tr @ [Sent req]))
      else (Inr JNull, tr))"
  by pat_completeness auto
termination
  by (relation "measure (\<lambda>(net, req, max_retries, attempt, tr). nat (max_retries - attempt))") auto

declare gateway_attempts.simps [simp del]

subsection \<open>\<^verbatim>\<open>get_datasource_uid\<close>\<close>

definition not_found_message :: "helper \<Rightarrow> string \<Rightarrow> string" where
  "not_found_message h datasource_name =
     ''Datasource '' @ quoted datasource_name @ '' not found.'' @ [newline]
     @ ''Available datasources: '' @ join '', '' (map fst (datasources h))"

definition get_datasource_uid :: "helper \<Rightarrow> string \<Rightarrow> pyerr + json" where
  "get_datasource_uid h datasource_name =
     (case map_of (datasources h) datasource_name of
        None \<Rightarrow> Inl (KeyError (repr_str (not_found_message h datasource_name)))
      | Some entry \<Rightarrow> py_getitem_str entry ''uid'')"

text \<open>\<^verbatim>\<open>self.datasources[datasource_name].get("id")\<close>\<close>

definition datasource_id_of :: "helper \<Rightarrow> string \<Rightarrow> pyerr + json" where
  "datasource_id_of h datasource_name =
     (case map_of (datasources h) datasource_name of
        None \<Rightarrow> Inl (KeyError (repr_str datasource_name))
      | Some entry \<Rightarrow> py_get entry ''id'' JNull)"

subsection \<open>\<^verbatim>\<open>query_prometheus_direct\<close>\<close>

text \<open>\<^verbatim>\<open>urllib.parse.quote(s)\<close>: everything but letters, digits and \<^verbatim>\<open>_.-~/\<close> is
  replaced by the percent-encoded bytes of its UTF-8 encoding.\<close>

definition is_unreserved :: "char \<Rightarrow> bool" where
  "is_unreserved c = (let n = (of_char c :: nat) in
     (48 \<le> n \<and> n \<le> 57) \<or> (65 \<le> n \<and> n \<le> 90) \<or> (97 \<le> n \<and> n \<le> 122)
     \<or> c \<in> set ''_.-~/'')"

definition hex_upper :: "nat \<Rightarrow> char" where
  "hex_upper d = (if d < 10 then char_of (48 + d) else char_of (55 + d))"

definition percent :: "nat \<Rightarrow> string" where
  "percent b = [CHR ''%'', hex_upper (b div 16), hex_upper (b mod 16)]"

definition quote_chr :: "char \<Rightarrow> string" where
  "quote_chr c = (let n = (of_char c :: nat) in
     if is_unreserved c then [c]
     else if n < 128 then percent n
     else percent (192 + n div 64) @ percent (128 + n mod 64))"

definition quote :: "string \<Rightarrow> string" where
  "quote s = concat (map quote_chr s)"

definition direct_request :: "helper \<Rightarrow> json \<Rightarrow> string \<Rightarrow> int \<Rightarrow> int \<Rightarrow> int \<Rightarrow> request" where
  "direct_request h datasource_id query start_timestamp end_timestamp step =
     \<lparr> req_method = ''GET'',
       req_url = grafana_url h @ ''/api/datasources/proxy/'' @ py_str datasource_id
                 @ ''/api/v1/query_range?''
                 @ join ''&'' [''query='' @ quote query, ''start='' @ str_int start_timestamp,
                               ''end='' @ str_int end_timestamp, ''step='' @ str_int step],
       req_headers = [(''Authorization'', ''Bearer '' @ api_token h),
                      (''Accept'', ''application/json'')],
       req_data = None \<rparr>"

definition query_prometheus_direct ::
    "helper \<Rightarrow> transport \<Rightarrow> string \<Rightarrow> string \<Rightarrow> int \<Rightarrow> int \<Rightarrow> int \<Rightarrow> int
     \<Rightarrow> (pyerr + json) \<times> event list" where
  "query_prometheus_direct h net datasource_name query start_timestamp end_timestamp step max_retries =
     (case datasource_id_of h datasource_name of
        Inl e \<Rightarrow> (Inl e, [])
      | Inr datasource_id \<Rightarrow>
          direct_attempts net
            (direct_request h datasource_id query start_timestamp end_timestamp step)
            max_retries 0 [])"

subsection \<open>\<^verbatim>\<open>query_prometheus_absolute\<close> and \<^verbatim>\<open>query_prometheus\<close>\<close>

text \<open>The request body is \<^verbatim>\<open>json.dumps(payload)\<close>; the request keeps the value.\<close>

definition datasource_obj :: "json \<Rightarrow> json \<Rightarrow> json" where
  "datasource_obj datasource_uid datasource_id =
     JObj ([(''uid'', datasource_uid), (''type'', JStr ''prometheus'')]
           @ (if datasource_id \<noteq> JNull then [(''id'', datasource_id)] else []))"

definition gateway_payload ::
    "json \<Rightarrow> json \<Rightarrow> string \<Rightarrow> string \<Rightarrow> string \<Rightarrow> string \<Rightarrow> string \<Rightarrow> json" where
  "gateway_payload datasource_uid datasource_id query interval legend_format from_time to_time =
     JObj [(''queries'', JArr [JObj [(''refId'', JStr ''A''),
                                     (''datasource'', datasource_obj datasource_uid datasource_id),
                                     (''datasourceId'', datasource_id),
                                     (''expr'', JStr query),
                                     (''interval'', JStr interval),
                                     (''legendFormat'', JStr legend_format),
                                     (''range'', JBool True)]]),
           (''from'', JStr from_time),
           (''to'', JStr to_time)]"

definition gateway_request :: "helper \<Rightarrow> json \<Rightarrow> request" where
  "gateway_request h payload =
     \<lparr> req_method = ''POST'',
       req_url = grafana_url h @ ''/api/ds/query'',
       req_headers = [(''Authorization'', ''Bearer '' @ api_token h),
                      (''Content-Type'', ''application/json'')],
       req_data = Some payload \<rparr>"

definition query_prometheus_absolute ::
    "helper \<Rightarrow> transport \<Rightarrow> string \<Rightarrow> string \<Rightarrow> int \<Rightarrow> int \<Rightarrow> string \<Rightarrow> string \<Rightarrow> int
     \<Rightarrow> (pyerr + json) \<times> event list" where
  "query_prometheus_absolute h net datasource_name query from_timestamp to_timestamp
       interval legend_format max_retries =
     (case get_datasource_uid h datasource_name of
        Inl e \<Rightarrow> (Inl e, [])
      | Inr datasource_uid \<Rightarrow>
          (case datasource_id_of h datasource_name of
             Inl e \<Rightarrow> (Inl e, [])
           | Inr datasource_id \<Rightarrow>
               absolute_attempts net
                 (gateway_request h
                    (gateway_payload datasource_uid datasource_id query interval legend_format
                       (str_int from_timestamp) (str_int to_timestamp)))
                 max_retries 0 []))"

definition query_prometheus ::
    "helper \<Rightarrow> transport \<Rightarrow> string \<Rightarrow> string \<Rightarrow> string \<Rightarrow> string \<Rightarrow> string \<Rightarrow> int
     \<Rightarrow> (pyerr + json) \<times> event list" where
  "query_prometheus h net datasource_name query time_range interval legend_format max_retries =
     (case get_datasource_uid h datasource_name of
        Inl e \<Rightarrow> (Inl e, [])
      | Inr datasource_uid \<Rightarrow>
          (case datasource_id_of h datasource_name of
             Inl e \<Rightarrow> (Inl e, [])
           | Inr datasource_id \<Rightarrow>
               (case parse_time_range time_range of
                  Inl e \<Rightarrow> (Inl e, [])
                | Inr ft \<Rightarrow>
                    gateway_attempts net
                      (gateway_request h
                         (gateway_payload datasource_uid datasource_id query interval
                            legend_format (fst ft) (snd ft)))
                      max_retries 0 [])))"

subsection \<open>\<^verbatim>\<open>query\<close>: the entry point, always on the direct path\<close>

text \<open>
  \<^verbatim>\<open>int(datetime.fromisoformat(s).timestamp())\<close> and
  \<^verbatim>\<open>int(datetime.strptime(s, "%Y-%m-%d %H:%M:%S").timestamp())\<close> are library calls;
  they are parameters, \<open>None\<close> where the call raises \<^verbatim>\<open>ValueError\<close>.
\<close>

record timelib =
  iso_timestamp :: "string \<Rightarrow> int option"
  local_timestamp :: "string \<Rightarrow> int option"

text \<open>\<^verbatim>\<open>str.isdigit\<close> on the code points below 256: the superscripts count as digits.\<close>

definition str_isdigit :: "string \<Rightarrow> bool" where
  "str_isdigit s = (s \<noteq> [] \<and> (\<forall>c\<in>set s. is_digit c \<or> c \<in> {CHR 0xB2, CHR 0xB3, CHR 0xB9}))"

definition replace_Z :: "string \<Rightarrow> string" where
  "replace_Z s = concat (map (\<lambda>c. if c = CHR ''Z'' then ''+00:00'' else [c]) s)"

definition parse_absolute_time :: "timelib \<Rightarrow> string \<Rightarrow> pyerr + int" where
  "parse_absolute_time lib time_str =
     (if str_isdigit time_str then int_of_str time_str
      else case (if CHR ''T'' \<in> set time_str \<or> CHR ''+'' \<in> set time_str \<or> CHR ''Z'' \<in> set time_str
                 then iso_timestamp lib (replace_Z time_str)
                 else local_timestamp lib time_str) of
             Some t \<Rightarrow> Inr t
           | None \<Rightarrow>
               Inl (ValueError (''Cannot parse time string: '' @ time_str @ [newline]
                     @ ''Supported formats: Unix timestamp, '' @ quoted ''YYYY-MM-DD HH:MM:SS''
                     @ '', or ISO format'')))"

text \<open>
  \<open>now\<close> is \<^verbatim>\<open>int(datetime.now().timestamp())\<close>.  An absent or empty bound is
  falsy.
\<close>

definition given :: "string option \<Rightarrow> bool" where
  "given t = (case t of Some s \<Rightarrow> s \<noteq> [] | None \<Rightarrow> False)"

definition query ::
    "helper \<Rightarrow> transport \<Rightarrow> timelib \<Rightarrow> int \<Rightarrow> string \<Rightarrow> string \<Rightarrow> string \<Rightarrow> string option
     \<Rightarrow> string option \<Rightarrow> int \<Rightarrow> int \<Rightarrow> (pyerr + json) \<times> event list" where
  "query h net lib now datasource_name q time_range start_time end_time step max_retries =
     (if given start_time \<and> given end_time
      then (case parse_absolute_time lib (the start_time) of
              Inl e \<Rightarrow> (Inl e, [])
            | Inr start_ts \<Rightarrow>
                (case parse_absolute_time lib (the end_time) of
                   Inl e \<Rightarrow> (Inl e, [])
                 | Inr end_ts \<Rightarrow>
                     query_prometheus_direct h net datasource_name q start_ts end_ts step
                       max_retries))
      else (case parse_duration_to_seconds time_range of
              Inl e \<Rightarrow> (Inl e, [])
            | Inr duration_seconds \<Rightarrow>
                query_prometheus_direct h net datasource_name q (now - duration_seconds) now
                  step max_retries))"

text \<open>The default of the parameter \<^verbatim>\<open>max_retries\<close> in every signature.\<close>

definition default_max_retries :: int where
  "default_max_retries = 3"

section \<open>Reference notions for the statements\<close>



text \<open>
  Well-shaped payloads, built from typed data.  A native series has a label set and
  points \<open>(timestamp, value)\<close>; a frame has an optional declared name, a column of
  millisecond timestamps and a column of values; a legacy series has a name and points
  \<open>(value, timestamp)\<close>.
\<close>

definition native_series :: "(string \<times> json) list \<Rightarrow> (int \<times> json) list \<Rightarrow> json" where
  "native_series metric points =
     JObj [(''metric'', JObj metric),
           (''values'', JArr (map (\<lambda>p. JArr [JInt (fst p), snd p]) points))]"

definition native_envelope :: "json list \<Rightarrow> json" where
  "native_envelope results =
     JObj [(''status'', JStr ''success''),
           (''data'', JObj [(''resultType'', JStr ''matrix''), (''result'', JArr results)])]"

definition frame_json :: "string option \<Rightarrow> int list \<Rightarrow> json list \<Rightarrow> json" where
  "frame_json name ts vals =
     JObj [(''schema'', JObj (case name of Some n \<Rightarrow> [(''name'', JStr n)] | None \<Rightarrow> [])),
           (''data'', JObj [(''values'', JArr [JArr (map JInt ts), JArr vals])])]"

definition frames_payload :: "json list \<Rightarrow> json" where
  "frames_payload frames = JObj [(''results'', JObj [(''A'', JObj [(''frames'', JArr frames)])])]"

definition legacy_series :: "string \<Rightarrow> (json \<times> int) list \<Rightarrow> json" where
  "legacy_series name points =
     JObj [(''name'', JStr name),
           (''points'', JArr (map (\<lambda>p. JArr [fst p, JInt (snd p)]) points))]"

definition series_payload :: "json list \<Rightarrow> json" where
  "series_payload series_list =
     JObj [(''results'', JObj [(''A'', JObj [(''series'', JArr series_list)])])]"

text \<open>
  The name of a native series: in \<^verbatim>\<open>simple\<close> mode the \<^verbatim>\<open>instance\<close> label, else the
  \<^verbatim>\<open>job\<close> label, else a placeholder; in \<^verbatim>\<open>table\<close> mode \<^verbatim>\<open>job/instance\<close> when both are
  there, else the printed label set.
\<close>

definition label :: "(string \<times> json) list \<Rightarrow> string \<Rightarrow> json \<Rightarrow> json" where
  "label metric k d = (case map_of metric k of Some v \<Rightarrow> v | None \<Rightarrow> d)"

definition spec_series_name :: "(string \<times> json) list \<Rightarrow> string" where
  "spec_series_name metric =
     (if truthy (label metric ''instance'' JNull) then py_str (label metric ''instance'' JNull)
      else if truthy (label metric ''job'' JNull) then py_str (label metric ''job'' JNull)
      else ''Series'')"

definition spec_metric_name :: "(string \<times> json) list \<Rightarrow> string" where
  "spec_metric_name metric =
     (if truthy (label metric ''job'' (JStr [])) \<and> truthy (label metric ''instance'' (JStr []))
      then py_str (label metric ''job'' (JStr [])) @ ''/'' @ py_str (label metric ''instance'' (JStr []))
      else py_repr (JObj metric))"

text \<open>The text of a clock reading, empty where the clock has none.\<close>

definition reading :: "string option \<Rightarrow> string" where
  "reading r = (case r of Some t \<Rightarrow> t | None \<Rightarrow> [])"

text \<open>
  A value whose conversion to \<^verbatim>\<open>float\<close> is exact: anything but an integer of
  magnitude \<open>2\<^sup>5\<^sup>3\<close> or more.  Its text in a gateway table is the integer with
  two decimals, or the value as it is.
\<close>

fun float_exact :: "json \<Rightarrow> bool" where
  "float_exact (JInt i) = (\<bar>i\<bar> < 2 ^ 53)"
| "float_exact v = True"

definition exact_text :: "json \<Rightarrow> string" where
  "exact_text v = (if is_number v then str_int (number_val v) @ ''.00'' else py_str v)"

text \<open>One table row.\<close>

definition table_row :: "string \<Rightarrow> string \<Rightarrow> string \<Rightarrow> string" where
  "table_row time_str name value_str = ''| '' @ time_str @ '' | '' @ name @ '' | '' @ value_str @ '' |''"

text \<open>The last \<open>n\<close> elements of a list.\<close>

definition last_n :: "nat \<Rightarrow> 'a list \<Rightarrow> 'a list" where
  "last_n n xs = drop (length xs - n) xs"

text \<open>
  The rows of one frame: the two columns paired position by position, the last ten pairs,
  under the declared name or a placeholder.
\<close>

definition spec_frame_rows :: "clock \<Rightarrow> string option \<times> int list \<times> json list \<Rightarrow> string list" where
  "spec_frame_rows clk f =
     map (\<lambda>p. table_row (reading (ymdhms clk (fst p div 1000)))
                 (case fst f of Some n \<Rightarrow> n | None \<Rightarrow> ''Series'')
                 (exact_text (snd p)))
         (last_n 10 (zip (fst (snd f)) (snd (snd f))))"

definition example_helper :: helper where
  "example_helper =
     \<lparr> grafana_url = ''http://g'', api_token = ''t'',
       datasources = [(''Prom'', JObj [(''uid'', JStr ''u1''), (''id'', JInt 7)]),
                      (''Loki'', JObj [(''uid'', JStr ''u2''), (''id'', JInt 9)])] \<rparr>"

section \<open>Properties of the time-range parsers\<close>

subsection \<open>Decimal numerals and \<^verbatim>\<open>int()\<close>\<close>

lemma is_digit_not_space: "is_digit c \<Longrightarrow> \<not> is_space c"
  by (auto simp: is_digit_def is_space_def Let_def)

lemma is_digit_digit_chr: "d < 10 \<Longrightarrow> is_digit (digit_chr d)"
  by (simp add: is_digit_def digit_chr_def)

lemma digit_val_digit_chr: "d < 10 \<Longrightarrow> digit_val (digit_chr d) = int d"
  by (simp add: digit_val_def digit_chr_def)

lemma dropWhile_hd: "xs \<noteq> [] \<Longrightarrow> \<not> P (hd xs) \<Longrightarrow> dropWhile P xs = xs"
  by (cases xs) auto

lemma strip_id: "s \<noteq> [] \<Longrightarrow> \<not> is_space (hd s) \<Longrightarrow> \<not> is_space (last s) \<Longrightarrow> strip s = s"
  by (simp add: strip_def dropWhile_hd hd_rev)

lemma is_int_space_space: "is_int_space c \<Longrightarrow> is_space c"
  by (auto simp: is_int_space_def is_space_def Let_def)

lemma int_strip_id:
  "s \<noteq> [] \<Longrightarrow> \<not> is_int_space (hd s) \<Longrightarrow> \<not> is_int_space (last s) \<Longrightarrow> int_strip s = s"
  by (simp add: int_strip_def dropWhile_hd hd_rev)

lemma str_nat_digits: "str_nat n \<noteq> [] \<and> (\<forall>c\<in>set (str_nat n). is_digit c)"
proof (induction n rule: str_nat.induct)
  case (1 n)
  show ?case
  proof (cases "n < 10")
    case True
    then show ?thesis by (subst str_nat.simps, subst str_nat.simps) (simp add: is_digit_digit_chr)
  next
    case False
    then have "n mod 10 < 10" by simp
    with False 1 show ?thesis
      by (subst str_nat.simps, subst (2) str_nat.simps) (auto simp: is_digit_digit_chr)
  qed
qed

lemma digits_value_snoc:
  "is_digit c \<Longrightarrow> digits_value (s @ [c]) = 10 * digits_value s + digit_val c"
  by (simp add: digits_value_def)

lemma digits_value_str_nat: "digits_value (str_nat n) = int n"
proof (induction n rule: str_nat.induct)
  case (1 n)
  show ?case
  proof (cases "n < 10")
    case True
    then show ?thesis
      by (subst str_nat.simps) (simp add: digits_value_def is_digit_digit_chr digit_val_digit_chr)
  next
    case False
    then have m: "n mod 10 < 10" by simp
    have "digits_value (str_nat n) = digits_value (str_nat (n div 10) @ [digit_chr (n mod 10)])"
      using False by (subst str_nat.simps) simp
    also have "\<dots> = 10 * int (n div 10) + int (n mod 10)"
      using 1 False m by (simp add: digits_value_snoc is_digit_digit_chr digit_val_digit_chr)
    also have "\<dots> = int n" by presburger
    finally show ?thesis .
  qed
qed

lemma digit_groups_all_digits: "s \<noteq> [] \<Longrightarrow> \<forall>c\<in>set s. is_digit c \<Longrightarrow> digit_groups s"
proof (induction s rule: digit_groups.induct)
  case 1 then show ?case by simp
next
  case (2 c) then show ?case by simp
next
  case (3 c d s)
  have "d \<noteq> CHR ''_''" using 3(4) by (auto simp: is_digit_def)
  with 3 show ?case by simp
qed

lemma digit_groups_chars: "digit_groups s \<Longrightarrow> c \<in> set s \<Longrightarrow> is_digit c \<or> c = CHR ''_''"
  by (induction s rule: digit_groups.induct) (auto split: if_splits)

lemma int_of_str_digits:
  assumes "s \<noteq> []" "\<forall>c\<in>set s. is_digit c"
  shows "int_of_str s = Inr (digits_value s)"
proof -
  have h: "is_digit (hd s)" "is_digit (last s)" using assms by auto
  then have "\<not> is_int_space (hd s)" "\<not> is_int_space (last s)"
    using is_digit_not_space is_int_space_space by blast+
  then have st: "int_strip s = s" using assms by (simp add: int_strip_id)
  have "hd s \<noteq> CHR ''-''" "hd s \<noteq> CHR ''+''" using h by (auto simp: is_digit_def)
  then show ?thesis using assms by (simp add: int_of_str_def st Let_def digit_groups_all_digits)
qed

lemma int_of_str_str_nat: "int_of_str (str_nat n) = Inr (int n)"
  using str_nat_digits [of n] by (simp add: int_of_str_digits digits_value_str_nat)

lemma unit_not_space: "map_of duration_units u = Some k \<Longrightarrow> \<not> is_space u"
  by (auto simp: duration_units_def is_space_def Let_def split: if_splits)

lemma digit_not_unit: "is_digit c \<Longrightarrow> map_of duration_units c = None"
  by (auto simp: duration_units_def is_digit_def)

lemma parse_duration_unit:
  assumes "map_of duration_units u = Some k"
  shows "parse_duration_to_seconds (str_nat n @ [u]) = Inr (int n * k)"
proof -
  have d: "str_nat n \<noteq> []" "is_digit (hd (str_nat n))" using str_nat_digits [of n] by auto
  then have "\<not> is_space (hd (str_nat n @ [u]))" by (simp add: is_digit_not_space)
  then have "strip (str_nat n @ [u]) = str_nat n @ [u]"
    using unit_not_space [OF assms] by (simp add: strip_id)
  then show ?thesis using assms
    by (simp add: parse_duration_to_seconds_def Let_def int_of_str_str_nat)
qed

lemma parse_duration_plain: "parse_duration_to_seconds (str_nat n) = Inr (int n)"
proof -
  have d: "str_nat n \<noteq> []" "is_digit (hd (str_nat n))" "is_digit (last (str_nat n))"
    using str_nat_digits [of n] by auto
  then have "strip (str_nat n) = str_nat n" by (simp add: strip_id is_digit_not_space)
  then show ?thesis using d
    by (simp add: parse_duration_to_seconds_def Let_def int_of_str_str_nat digit_not_unit)
qed

lemma set_dropWhile_keep: "c \<in> set xs \<Longrightarrow> \<not> P c \<Longrightarrow> c \<in> set (dropWhile P xs)"
  by (induction xs) auto

lemma set_int_strip: "c \<in> set s \<Longrightarrow> \<not> is_space c \<Longrightarrow> c \<in> set (int_strip s)"
proof -
  assume "c \<in> set s" "\<not> is_space c"
  moreover from this have "\<not> is_int_space c" using is_int_space_space by blast
  ultimately show ?thesis by (simp add: int_strip_def set_dropWhile_keep)
qed

lemma int_of_str_bad:
  assumes "c \<in> set s" "\<not> numeric_char c"
  shows "int_of_str s = Inl (ValueError (''invalid literal for int() with base 10: '' @ repr_str s))"
proof -
  let ?t = "int_strip s"
  let ?body = "if ?t \<noteq> [] \<and> (hd ?t = CHR ''-'' \<or> hd ?t = CHR ''+'') then tl ?t else ?t"
  have ns: "\<not> is_space c" "\<not> is_digit c" "c \<noteq> CHR ''_''" "c \<noteq> CHR ''-''" "c \<noteq> CHR ''+''"
    using assms(2) by (auto simp: numeric_char_def)
  have ct: "c \<in> set ?t" using assms(1) ns(1) by (rule set_int_strip)
  have "c \<in> set ?body"
  proof (cases ?t)
    case Nil with ct show ?thesis by simp
  next
    case (Cons a as)
    with ct ns show ?thesis by auto
  qed
  then have "\<not> digit_groups ?body" using digit_groups_chars ns by blast
  then show ?thesis by (simp add: int_of_str_def Let_def)
qed

lemma strip_snoc: "\<not> is_space x \<Longrightarrow> strip (p @ [x]) = dropWhile is_space p @ [x]"
proof -
  assume a: "\<not> is_space x"
  have "dropWhile is_space (p @ [x]) = dropWhile is_space p @ [x]"
    using a by (induction p) auto
  then show ?thesis using a by (simp add: strip_def)
qed

lemma parse_duration_bad_prefix:
  assumes "map_of duration_units u = Some k" "c \<in> set p" "\<not> numeric_char c"
  shows "\<exists>m. parse_duration_to_seconds (p @ [u]) = Inl (ValueError m)"
proof -
  have st: "strip (p @ [u]) = dropWhile is_space p @ [u]"
    using unit_not_space [OF assms(1)] by (rule strip_snoc)
  have "\<not> is_space c" using assms(3) by (simp add: numeric_char_def)
  then have "c \<in> set (dropWhile is_space p)" using assms(2) by (simp add: set_dropWhile_keep)
  then have "\<exists>m. int_of_str (dropWhile is_space p) = Inl (ValueError m)"
    using int_of_str_bad [OF _ assms(3)] by blast
  then show ?thesis using assms(1) by (auto simp: parse_duration_to_seconds_def st Let_def)
qed

lemma parse_duration_no_number:
  assumes "map_of duration_units u = Some k"
  shows "\<exists>m. parse_duration_to_seconds [u] = Inl (ValueError m)"
proof -
  have "strip [u] = [u]" using unit_not_space [OF assms] by (simp add: strip_def)
  moreover have "\<exists>m. int_of_str [] = Inl (ValueError m)"
    by (simp add: int_of_str_def int_strip_def)
  ultimately show ?thesis using assms by (auto simp: parse_duration_to_seconds_def Let_def)
qed

lemma parse_duration_bad_unit:
  assumes "map_of duration_units x = None" "\<not> numeric_char x"
  shows "\<exists>m. parse_duration_to_seconds (p @ [x]) = Inl (ValueError m)"
proof -
  have "\<not> is_space x" using assms(2) by (simp add: numeric_char_def)
  then have st: "strip (p @ [x]) = dropWhile is_space p @ [x]" by (rule strip_snoc)
  have "\<exists>m. int_of_str (dropWhile is_space p @ [x]) = Inl (ValueError m)"
    using int_of_str_bad [of x "dropWhile is_space p @ [x]"] assms(2) by simp
  then show ?thesis using assms(1) by (auto simp: parse_duration_to_seconds_def st Let_def)
qed

lemma parse_duration_blank:
  "strip s = [] \<Longrightarrow> parse_duration_to_seconds s = Inl (IndexError ''string index out of range'')"
  by (simp add: parse_duration_to_seconds_def)

text \<open>
  Claim C4, as the code has it.  For every natural number \<open>n\<close>, the decimal numeral of
  \<open>n\<close> followed by one of the unit letters \<open>s\<close>, \<open>m\<close>, \<open>h\<close>, \<open>d\<close>, \<open>w\<close> parses
  to \<open>n\<close> times 1, 60, 3600, 86400, 604800, and the numeral alone parses to \<open>n\<close>
  seconds.  A string that is empty after stripping raises \<^verbatim>\<open>IndexError\<close>.  A string
  fails with \<^verbatim>\<open>ValueError\<close> when the part before a unit letter is empty or holds a
  character that \<^verbatim>\<open>int()\<close> does not tolerate, or when its last character is such a
  character and no unit letter.  Signs, whitespace and underscores are tolerated by
  \<^verbatim>\<open>int()\<close>, so not every other string fails.
\<close>

theorem duration_seconds_table:
  "parse_duration_to_seconds (str_nat n @ ''s'') = Inr (int n * 1)
   \<and> parse_duration_to_seconds (str_nat n @ ''m'') = Inr (int n * 60)
   \<and> parse_duration_to_seconds (str_nat n @ ''h'') = Inr (int n * 3600)
   \<and> parse_duration_to_seconds (str_nat n @ ''d'') = Inr (int n * 86400)
   \<and> parse_duration_to_seconds (str_nat n @ ''w'') = Inr (int n * 604800)
   \<and> parse_duration_to_seconds (str_nat n) = Inr (int n)
   \<and> (strip s = [] \<longrightarrow>
        parse_duration_to_seconds s = Inl (IndexError ''string index out of range''))
   \<and> (map_of duration_units u \<noteq> None \<and> (\<exists>c\<in>set p. \<not> numeric_char c) \<longrightarrow>
        (\<exists>m. parse_duration_to_seconds (p @ [u]) = Inl (ValueError m)))
   \<and> (map_of duration_units u \<noteq> None \<longrightarrow>
        (\<exists>m. parse_duration_to_seconds [u] = Inl (ValueError m)))
   \<and> (map_of duration_units x = None \<and> \<not> numeric_char x \<longrightarrow>
        (\<exists>m. parse_duration_to_seconds (q @ [x]) = Inl (ValueError m)))"
proof -
  have units: "map_of duration_units CHR ''s'' = Some 1" "map_of duration_units CHR ''m'' = Some 60"
    "map_of duration_units CHR ''h'' = Some 3600" "map_of duration_units CHR ''d'' = Some 86400"
    "map_of duration_units CHR ''w'' = Some 604800"
    by (simp_all add: duration_units_def)
  show ?thesis
    using units [THEN parse_duration_unit, of n] parse_duration_plain [of n]
      parse_duration_blank [of s] parse_duration_bad_prefix [of u _ _ p]
      parse_duration_no_number [of u] parse_duration_bad_unit [of x q]
    by (intro conjI impI) auto
qed

text \<open>The hypotheses of the theorem for C4 hold at concrete strings.\<close>

theorem duration_seconds_table_witness:
  "parse_duration_to_seconds ''90m'' = Inr 5400
   \<and> parse_duration_to_seconds ''   '' = Inl (IndexError ''string index out of range'')
   \<and> (\<exists>m. parse_duration_to_seconds ''1.5h'' = Inl (ValueError m))
   \<and> (\<exists>m. parse_duration_to_seconds ''h'' = Inl (ValueError m))
   \<and> (\<exists>m. parse_duration_to_seconds ''5x'' = Inl (ValueError m))"
proof -
  have n: "str_nat 90 = ''90''" by code_simp
  have b: "strip ''   '' = []" by code_simp
  have u: "map_of duration_units CHR ''h'' \<noteq> None" by (simp add: duration_units_def)
  have c: "\<exists>c\<in>set ''1.5''. \<not> numeric_char c" by (simp add: numeric_char_def is_digit_def is_space_def)
  have x: "map_of duration_units CHR ''x'' = None \<and> \<not> numeric_char CHR ''x''"
    by (simp add: duration_units_def numeric_char_def is_digit_def is_space_def)
  show ?thesis
    using duration_seconds_table [of 90 "''   ''" "CHR ''h''" "''1.5''" "CHR ''x''" "''5''"] n b u c x
    by simp
qed

text \<open>
  Claim C4 as stated fails: \<^verbatim>\<open>"-5m"\<close> is no positive integer followed by a unit, yet
  it parses, to a negative duration.
\<close>

theorem duration_negative_counterexample:
  "parse_duration_to_seconds ''-5m'' = Inr (- 300)"
  by code_simp

section \<open>Properties of the dispatcher\<close>

subsection \<open>The retry loops\<close>

lemma absolute_attempts_eq:
  "absolute_attempts net req mr a tr = direct_attempts net req mr a tr"
proof (induction net req mr a tr rule: direct_attempts.induct)
  case (1 net req mr a tr)
  show ?case
    by (subst absolute_attempts.simps, subst direct_attempts.simps)
       (use 1 in \<open>auto split: http_outcome.splits\<close>)
qed

lemma gateway_attempts_eq:
  "gateway_attempts net req mr a tr = direct_attempts net req mr a tr"
proof (induction net req mr a tr rule: direct_attempts.induct)
  case (1 net req mr a tr)
  show ?case
    by (subst gateway_attempts.simps, subst direct_attempts.simps)
       (use 1 in \<open>auto split: http_outcome.splits\<close>)
qed

lemma attempts_none: "mr \<le> a \<Longrightarrow> direct_attempts net req mr a tr = (Inr JNull, tr)"
  by (subst direct_attempts.simps) simp




lemma uid_gives_id:
  "get_datasource_uid h name = Inr u \<Longrightarrow> \<exists>did. datasource_id_of h name = Inr did"
  by (auto simp: get_datasource_uid_def datasource_id_of_def split: option.splits
           elim: py_getitem_str.elims)

subsection \<open>Retry, lookups and the default window\<close>



text \<open>
  Claim C9, as the code has it.  With \<^verbatim>\<open>max_retries\<close> at most 0, a call whose lookups
  before the loop succeed (the datasource is configured, with a \<^verbatim>\<open>uid\<close> on the gateway
  paths, and the time range of \<^verbatim>\<open>query_prometheus\<close> parses) returns \<^verbatim>\<open>None\<close>, sends
  nothing and sleeps never.
\<close>

theorem no_attempt_without_retries:
  assumes "max_retries \<le> 0"
  shows "(datasource_id_of h name = Inr did \<longrightarrow>
            query_prometheus_direct h net name q start_ts end_ts step max_retries = (Inr JNull, []))
       \<and> (get_datasource_uid h name = Inr u \<longrightarrow>
            query_prometheus_absolute h net name q from_ts to_ts iv lf max_retries = (Inr JNull, []))
       \<and> (get_datasource_uid h name = Inr u \<and> parse_time_range time_range = Inr ft \<longrightarrow>
            query_prometheus h net name q time_range iv lf max_retries = (Inr JNull, []))"
proof (intro conjI impI)
  assume "datasource_id_of h name = Inr did"
  then show "query_prometheus_direct h net name q start_ts end_ts step max_retries = (Inr JNull, [])"
    using assms by (simp add: query_prometheus_direct_def attempts_none)
next
  assume a: "get_datasource_uid h name = Inr u"
  then obtain did where "datasource_id_of h name = Inr did" using uid_gives_id by blast
  with a show "query_prometheus_absolute h net name q from_ts to_ts iv lf max_retries = (Inr JNull, [])"
    using assms by (simp add: query_prometheus_absolute_def absolute_attempts_eq attempts_none)
next
  assume a: "get_datasource_uid h name = Inr u \<and> parse_time_range time_range = Inr ft"
  then obtain did where "datasource_id_of h name = Inr did" using uid_gives_id by blast
  with a show "query_prometheus h net name q time_range iv lf max_retries = (Inr JNull, [])"
    using assms by (simp add: query_prometheus_def gateway_attempts_eq attempts_none)
qed

text \<open>The hypotheses of the theorem for C9 hold for a configured datasource.\<close>

theorem no_attempt_without_retries_witness:
  "query_prometheus_direct example_helper (\<lambda>k r. URLError ''refused'') ''Prom'' ''up'' 100 200 15 0
     = (Inr JNull, [])
   \<and> query_prometheus_absolute example_helper (\<lambda>k r. URLError ''refused'') ''Prom'' ''up''
        100000 200000 [] [] (- 1) = (Inr JNull, [])
   \<and> query_prometheus example_helper (\<lambda>k r. URLError ''refused'') ''Prom'' ''up'' ''1h'' [] [] 0
     = (Inr JNull, [])"
proof -
  have 1: "datasource_id_of example_helper ''Prom'' = Inr (JInt 7)"
    by (simp add: datasource_id_of_def example_helper_def)
  have 2: "get_datasource_uid example_helper ''Prom'' = Inr (JStr ''u1'')"
    by (simp add: get_datasource_uid_def example_helper_def)
  have 3: "parse_time_range ''1h'' = Inr (''now-1h'', ''now'')" by code_simp
  have a: "(0::int) \<le> 0" and b: "(- 1::int) \<le> 0" by simp_all
  show ?thesis
    using no_attempt_without_retries [OF a, where h = example_helper and name = "''Prom''"
          and did = "JInt 7"]
      no_attempt_without_retries [OF b, where h = example_helper and name = "''Prom''"
          and u = "JStr ''u1''"]
      no_attempt_without_retries [OF a, where h = example_helper and name = "''Prom''"
          and u = "JStr ''u1''" and time_range = "''1h''" and ft = "(''now-1h'', ''now'')"]
      1 2 3
    by simp
qed

text \<open>
  Claim C9 as stated fails: a call with \<^verbatim>\<open>max_retries = 0\<close> that names a datasource
  missing from the configuration raises \<^verbatim>\<open>KeyError\<close> before the loop.
\<close>

theorem unknown_datasource_without_retries_counterexample:
  "query_prometheus_direct example_helper (\<lambda>k r. Response (JObj [])) ''Missing'' ''up'' 100 200 15 0
     = (Inl (KeyError (quoted ''Missing'')), [])"
  by code_simp

text \<open>
  Claim C6 at a datasource name missing from the configuration: both paths raise
  before any request, but the direct path raises the bare \<^verbatim>\<open>KeyError\<close> of the dictionary
  lookup, which names the requested datasource only, where the gateway path goes through
  \<^verbatim>\<open>get_datasource_uid\<close> and lists the available names.
\<close>

theorem unknown_datasource_direct_path:
  "query_prometheus_direct example_helper (\<lambda>k r. Response (JObj [])) ''Missing'' ''up'' 100 200 15
       default_max_retries
     = (Inl (KeyError (quoted ''Missing'')), [])
   \<and> query_prometheus example_helper (\<lambda>k r. Response (JObj [])) ''Missing'' ''up'' ''1h'' [] []
       default_max_retries
     = (Inl (KeyError (repr_str (''Datasource '' @ quoted ''Missing'' @ '' not found.'' @ [newline]
                                 @ ''Available datasources: Prom, Loki''))), [])"
  by code_simp

text \<open>
  Claim C3 at the relative expression \<^verbatim>\<open>"now-6h"\<close>: the gateway parser does not pass
  it through, it puts \<^verbatim>\<open>"now-"\<close> in front of what follows the first three characters.
\<close>

theorem relative_expression_rewritten:
  "parse_time_range ''now-6h'' = Inr (''now--6h'', ''now'')"
  by code_simp

lemma time_range_unit_iff: "(map_of time_range_units c = None) = (c \<notin> set ''smhdw'')"
  by (auto simp: time_range_units_def)

text \<open>
  Claim C10, as the code has it.  \<^verbatim>\<open>_parse_time_range\<close> returns a window for every
  string that is not empty after stripping whitespace.  When such a string does not
  start with \<^verbatim>\<open>"now"\<close> and its last character after stripping is none of
  \<open>s\<close>, \<open>m\<close>, \<open>h\<close>, \<open>d\<close>, \<open>w\<close>, the window is the default
  \<^verbatim>\<open>("now-1h", "now")\<close>, and \<^verbatim>\<open>query_prometheus\<close> on a configured datasource goes on
  to the request loop with that window.
\<close>

theorem time_range_default_window:
  "(strip s \<noteq> [] \<longrightarrow> (\<exists>r. parse_time_range s = Inr r))
   \<and> (\<not> startswith s ''now'' \<and> strip s \<noteq> [] \<and> last (strip s) \<notin> set ''smhdw'' \<longrightarrow>
        parse_time_range s = Inr (''now-1h'', ''now''))
   \<and> (\<not> startswith s ''now'' \<and> strip s \<noteq> [] \<and> last (strip s) \<notin> set ''smhdw''
        \<and> get_datasource_uid h name = Inr u \<and> datasource_id_of h name = Inr did \<longrightarrow>
        query_prometheus h net name q s iv lf max_retries
          = gateway_attempts net
              (gateway_request h (gateway_payload u did q iv lf ''now-1h'' ''now''))
              max_retries 0 [])"
proof -
  have d: "\<not> startswith s ''now'' \<and> strip s \<noteq> [] \<and> last (strip s) \<notin> set ''smhdw''
           \<Longrightarrow> parse_time_range s = Inr (''now-1h'', ''now'')"
    using time_range_unit_iff [of "last (strip s)"]
    by (simp add: parse_time_range_def Let_def del: set_simps)
  have t: "strip s \<noteq> [] \<Longrightarrow> \<exists>r. parse_time_range s = Inr r"
    by (simp add: parse_time_range_def Let_def)
  show ?thesis using d t by (auto simp: query_prometheus_def)
qed

text \<open>The hypotheses of the theorem for C10 hold at a malformed range.\<close>

theorem time_range_default_window_witness:
  "strip ''yesterday'' \<noteq> [] \<and> \<not> startswith ''yesterday'' ''now''
   \<and> last (strip ''yesterday'') \<notin> set ''smhdw''
   \<and> parse_time_range ''yesterday'' = Inr (''now-1h'', ''now'')
   \<and> query_prometheus example_helper (\<lambda>k r. Response (JObj [])) ''Prom'' ''up'' ''yesterday'' [] [] 3
       = gateway_attempts (\<lambda>k r. Response (JObj []))
           (gateway_request example_helper
              (gateway_payload (JStr ''u1'') (JInt 7) ''up'' [] [] ''now-1h'' ''now'')) 3 0 []"
proof -
  have 1: "datasource_id_of example_helper ''Prom'' = Inr (JInt 7)"
    by (simp add: datasource_id_of_def example_helper_def)
  have 2: "get_datasource_uid example_helper ''Prom'' = Inr (JStr ''u1'')"
    by (simp add: get_datasource_uid_def example_helper_def)
  have 3: "strip ''yesterday'' = ''yesterday''" by code_simp
  have 4: "\<not> startswith ''yesterday'' ''now''" by code_simp
  show ?thesis
    using time_range_default_window [where s = "''yesterday''" and h = example_helper
          and name = "''Prom''" and u = "JStr ''u1''" and did = "JInt 7"]
      1 2 3 4
    by simp
qed

text \<open>
  Claim C10 as stated fails: a string of one space is not empty, and the parser raises
  \<^verbatim>\<open>IndexError\<close> on it.
\<close>

theorem blank_time_range_counterexample:
  "parse_time_range '' '' = Inl (IndexError ''string index out of range'')"
  by code_simp

subsection \<open>The entry point resolves relative ranges itself\<close>

text \<open>
  Without absolute bounds, \<^verbatim>\<open>query\<close> hands the direct path the window
  \<open>[now - duration, now]\<close> in epoch seconds, and raises before any request when the
  range does not parse; an expression in the gateway's own grammar does not parse.
\<close>

lemma query_relative_window:
  "parse_duration_to_seconds time_range = Inr d \<Longrightarrow>
   query h net lib now name q time_range None None step max_retries
     = query_prometheus_direct h net name q (now - d) now step max_retries"
  by (simp add: query_def given_def)

lemma query_relative_rejected:
  "parse_duration_to_seconds time_range = Inl e \<Longrightarrow>
   query h net lib now name q time_range None None step max_retries = (Inl e, [])"
  by (simp add: query_def given_def)

lemma now_expression_is_no_duration:
  "parse_duration_to_seconds ''now-6h''
     = Inl (ValueError (''invalid literal for int() with base 10: '' @ quoted ''now-6''))"
  by code_simp

section \<open>Properties of the formatters\<close>

subsection \<open>Loops over well-shaped elements\<close>

lemma bnd_Inr [simp]: "bnd (Inr v) f = f v"
  by (simp add: bnd_def)

lemma bnd_Inl [simp]: "bnd (Inl e) f = Inl e"
  by (simp add: bnd_def)

lemma for_each_ok:
  "(\<And>x. x \<in> set xs \<Longrightarrow> body x = Inr (f x)) \<Longrightarrow> for_each body xs = Inr (concat (map f xs))"
  by (induction xs) simp_all

lemma for_each_map_ok:
  "(\<And>x. x \<in> set xs \<Longrightarrow> body (g x) = Inr (f x)) \<Longrightarrow>
   for_each body (map g xs) = Inr (concat (map f xs))"
  by (induction xs) simp_all

lemma for_each_fails:
  assumes "\<And>x. x \<in> set xs \<Longrightarrow> body x = Inl e \<or> (\<exists>ls. body x = Inr ls)"
      and "\<exists>x\<in>set xs. body x = Inl e"
  shows "for_each body xs = Inl e"
  using assms
proof (induction xs)
  case Nil
  then show ?case by simp
next
  case (Cons x xs)
  show ?case
  proof (cases "body x")
    case (Inl e')
    then have "e' = e" using Cons.prems(1) [of x] by auto
    with Inl show ?thesis by simp
  next
    case (Inr ls)
    then have "\<exists>y\<in>set xs. body y = Inl e" using Cons.prems(2) by auto
    then have "for_each body xs = Inl e" using Cons.IH Cons.prems(1) by simp
    with Inr show ?thesis by simp
  qed
qed

lemma list_index_last: "xs \<noteq> [] \<Longrightarrow> list_index xs (- 1) = Some (last xs)"
  by (cases xs rule: rev_cases) (auto simp: list_index_def nth_append)

lemma list_index_nat: "i < length xs \<Longrightarrow> list_index xs (int i) = Some (xs ! i)"
  by (simp add: list_index_def)

lemma list_index_beyond: "length xs \<le> i \<Longrightarrow> list_index xs (int i) = None"
  by (simp add: list_index_def)

lemma slice_to_take: "0 \<le> n \<Longrightarrow> slice_to xs n = take (nat n) xs"
  by (simp add: slice_to_def)

lemma slice_from_last_n: "0 < n \<Longrightarrow> slice_from xs (- n) = last_n (nat n) xs"
  by (auto simp: slice_from_def last_n_def nat_diff_distrib' intro: arg_cong [where f = "\<lambda>k. drop k xs"])

lemma unpack2_pair [simp]: "unpack2 (JArr [a, b]) = Inr (a, b)"
  by (simp add: unpack2_def)

subsection \<open>The native envelope\<close>

lemma series_label_native: "series_label (JObj metric) = Inr (if truthy (label metric ''instance'' JNull) then label metric ''instance'' JNull
      else if truthy (label metric ''job'' JNull) then label metric ''job'' JNull
      else JStr ''Series'')"
  by (simp add: series_label_def label_def)

lemma native_simple_line_ok:
  assumes "points \<noteq> []"
  shows "native_simple_line (native_series metric points)
           = Inr [spec_series_name metric @ '': '' @ py_str (snd (last points))]"
proof -
  let ?vs = "map (\<lambda>p. JArr [JInt (fst p), snd p]) points"
  have l: "list_index ?vs (- 1) = Some (JArr [JInt (fst (last points)), snd (last points)])"
    using assms by (simp add: list_index_last last_map)
  show ?thesis
    using assms
    by (simp add: native_simple_line_def native_series_def series_label_native l
                  spec_series_name_def)
qed

lemma native_envelope_parts:
  "truthy (native_envelope rs)"
  "py_get (native_envelope rs) ''status'' JNull = Inr (JStr ''success'')"
  "py_get (native_envelope rs) ''data'' (JObj []) = Inr (JObj [(''resultType'', JStr ''matrix''), (''result'', JArr rs)])"
  by (simp_all add: native_envelope_def)

text \<open>
  Claim C8.  For a native envelope of 25 series, each with at least one point, and
  \<^verbatim>\<open>max_series = 20\<close>, the \<^verbatim>\<open>simple\<close> mode returns 21 lines joined by newlines: for
  each of the first 20 series the line \<^verbatim>\<open><name>: <latest value>\<close>, the latest value
  being the value of the last point, and then the one line
  \<^verbatim>\<open>... and 5 more series\<close>.
\<close>

theorem simple_mode_truncation:
  assumes "length ss = 25" and "\<forall>s\<in>set ss. snd s \<noteq> []"
  shows "format_prometheus_result clk
           (native_envelope (map (\<lambda>s. native_series (fst s) (snd s)) ss)) ''simple'' 20 max_points
         = Inr (join [newline]
                  (map (\<lambda>s. spec_series_name (fst s) @ '': '' @ py_str (snd (last (snd s))))
                       (take 20 ss)
                   @ [''... and 5 more series'']))"
proof -
  let ?rs = "map (\<lambda>s. native_series (fst s) (snd s)) ss"
  have ne: "?rs \<noteq> []" using assms(1) by auto
  have "for_each native_simple_line (map (\<lambda>s. native_series (fst s) (snd s)) (take 20 ss))
          = Inr (concat (map (\<lambda>r. [spec_series_name (fst r) @ '': '' @ py_str (snd (last (snd r)))])
                          (take 20 ss)))"
  proof (rule for_each_map_ok)
    fix x assume "x \<in> set (take 20 ss)"
    then have "snd x \<noteq> []" using assms(2) by (auto dest: in_set_takeD)
    then show "native_simple_line (native_series (fst x) (snd x))
                 = Inr [spec_series_name (fst x) @ '': '' @ py_str (snd (last (snd x)))]"
      by (rule native_simple_line_ok)
  qed
  then have lines: "for_each native_simple_line (take 20 ?rs)
          = Inr (map (\<lambda>s. spec_series_name (fst s) @ '': '' @ py_str (snd (last (snd s)))) (take 20 ss))"
    by (simp add: take_map)
  have five: "str_int 5 = ''5''" by code_simp
  have more: "more_series_line 25 20 = [''... and 5 more series'']"
    by (simp add: more_series_line_def five)
  show ?thesis
    using ne assms(1)
    by (simp add: format_prometheus_result_def native_envelope_parts slice_to_take lines more)
qed

text \<open>Twenty-five series \<open>h0\<close>, \<dots>, \<open>h24\<close> of two points each.\<close>

theorem simple_mode_truncation_witness:
  "format_prometheus_result utc_clock
     (native_envelope
        (map (\<lambda>i. native_series [(''instance'', JStr (''h'' @ str_nat i))]
                     [(1700000000, JStr ''0''), (1700000015, JStr (str_nat i))])
             [0..<25]))
     ''simple'' 20 10
   = Inr (join [newline]
            (map (\<lambda>i. ''h'' @ str_nat i @ '': '' @ str_nat i) [0..<20]
             @ [''... and 5 more series'']))"
proof -
  let ?ss = "map (\<lambda>i. ([(''instance'', JStr (''h'' @ str_nat i))],
                       [(1700000000::int, JStr ''0''), (1700000015, JStr (str_nat i))])) [0..<25]"
  have 1: "length ?ss = 25" by simp
  have 2: "\<forall>s\<in>set ?ss. snd s \<noteq> []" by simp
  show ?thesis
    using simple_mode_truncation [OF 1 2, of utc_clock 10]
    by (simp add: o_def spec_series_name_def label_def take_map)
qed

subsection \<open>Payloads in none of the recognised shapes\<close>








subsection \<open>Values whose conversion to float is exact\<close>

lemma bit_length_bound: "n < 2 ^ k \<Longrightarrow> bit_length n \<le> k"
proof (induction k arbitrary: n)
  case 0
  then show ?case by (subst bit_length.simps) simp
next
  case (Suc k)
  have "n div 2 < 2 ^ k" using Suc.prems by auto
  then have "bit_length (n div 2) \<le> k" by (rule Suc.IH)
  then show ?case by (subst bit_length.simps) simp
qed

lemma nearest_double_exact: "\<bar>i\<bar> < 2 ^ 53 \<Longrightarrow> nearest_double i = Some i"
proof -
  assume a: "\<bar>i\<bar> < 2 ^ 53"
  have "nat \<bar>i\<bar> < 2 ^ 53" using a by (simp add: nat_less_iff)
  then have "bit_length (nat \<bar>i\<bar>) \<le> 53" by (rule bit_length_bound)
  then show ?thesis by (simp add: nearest_double_def Let_def)
qed

lemma value_text_exact: "float_exact v \<Longrightarrow> value_text v = Inr (exact_text v)"
  by (cases v) (simp_all add: value_text_def exact_text_def fmt_2f_def nearest_double_exact)

text \<open>Beyond \<open>2\<^sup>5\<^sup>3\<close> the printed digits are those of the nearest double.\<close>

lemma bit_length_example: "bit_length 9007199254740993 = 54"
  by (simp add: bit_length.simps)

lemma nearest_double_example: "nearest_double 9007199254740993 = Some 9007199254740992"
  by (simp add: nearest_double_def Let_def bit_length_example)

lemma str_int_example: "str_int 9007199254740992 = ''9007199254740992''"
  by (simp add: str_int_def str_nat.simps digit_chr_def char_of_def bit_iff_odd)

lemma large_integer_rounds: "value_text (JInt 9007199254740993) = Inr ''9007199254740992.00''"
  by (simp add: value_text_def fmt_2f_def nearest_double_example str_int_example)

subsection \<open>Rows of one series\<close>

lemma upto_as_upt: "[int a..int b - 1] = map int [a..<b]"
proof (induction b)
  case 0
  then show ?case by simp
next
  case (Suc b)
  show ?case
  proof (cases "a \<le> b")
    case True
    then have "[int a..int (Suc b) - 1] = [int a..int b - 1] @ [int b]"
      by (simp add: upto_rec2)
    with Suc True show ?thesis by simp
  next
    case False
    then show ?thesis by simp
  qed
qed

lemma last_window: "[max 0 (int n - 10)..int n - 1] = map int [n - 10..<n]"
proof -
  have "max 0 (int n - 10) = int (n - 10)" by simp
  then show ?thesis by (simp only: upto_as_upt)
qed

lemma last_n_map: "last_n k (map f xs) = map f (last_n k xs)"
  by (simp add: last_n_def drop_map)

lemma last_n_nth: "last_n k xs = map ((!) xs) [length xs - k..<length xs]"
proof -
  have "drop (length xs - k) (map ((!) xs) [0..<length xs]) = map ((!) xs) [length xs - k..<length xs]"
    by (simp only: drop_map drop_upt) simp
  then show ?thesis by (simp add: last_n_def map_nth)
qed

lemma render_time_reading: "r \<noteq> None \<Longrightarrow> render_time r = Inr (reading r)"
  by (auto simp: render_time_def reading_def)

lemma frame_json_parts:
  "frame_name (frame_json name ts vals)
     = Inr (JStr (case name of Some n \<Rightarrow> n | None \<Rightarrow> ''Series''))"
  "frame_values (frame_json name ts vals) = Inr (JArr [JArr (map JInt ts), JArr vals])"
  by (simp_all add: frame_name_def frame_values_def frame_json_def split: option.splits)

lemma frame_table_row_at:
  assumes "k < length ts" "ymdhms clk (ts ! k div 1000) \<noteq> None" "\<forall>v\<in>set vals. float_exact v"
  shows "frame_table_row clk (JStr nm) (JArr (map JInt ts)) (JArr vals) (int k)
           = (if k < length vals
              then Inr [table_row (reading (ymdhms clk (ts ! k div 1000))) nm (exact_text (vals ! k))]
              else Inl (IndexError ''list index out of range''))"
proof (cases "k < length vals")
  case True
  then have "float_exact (vals ! k)" using assms(3) by simp
  then show ?thesis
    using assms(1,2) True
    by (simp add: frame_table_row_def list_index_nat render_time_reading table_row_def
                  value_text_exact)
next
  case False
  then show ?thesis
    using assms(1,2)
    by (simp add: frame_table_row_def list_index_nat list_index_beyond render_time_reading)
qed

lemma frame_rows_start:
  "frame_table_rows clk (frame_json name ts vals)
     = for_each (frame_table_row clk (JStr (case name of Some n \<Rightarrow> n | None \<Rightarrow> ''Series''))
                    (JArr (map JInt ts)) (JArr vals))
         (map int [length ts - 10..<length ts])"
  by (simp add: frame_table_rows_def frame_json_parts list_index_def last_window)

lemma frame_rows_ok:
  assumes "\<forall>t\<in>set ts. ymdhms clk (t div 1000) \<noteq> None" "length ts \<le> length vals"
      and "\<forall>v\<in>set vals. float_exact v"
  shows "frame_table_rows clk (frame_json name ts vals)
           = Inr (map (\<lambda>p. table_row (reading (ymdhms clk (fst p div 1000)))
                             (case name of Some n \<Rightarrow> n | None \<Rightarrow> ''Series'')
                             (exact_text (snd p)))
                      (last_n 10 (zip ts vals)))"
proof -
  let ?nm = "case name of Some n \<Rightarrow> n | None \<Rightarrow> ''Series''"
  let ?row = "\<lambda>p. table_row (reading (ymdhms clk (fst p div 1000))) ?nm (exact_text (snd p))"
  have "for_each (frame_table_row clk (JStr ?nm) (JArr (map JInt ts)) (JArr vals))
          (map int [length ts - 10..<length ts])
        = Inr (concat (map (\<lambda>k. [?row (zip ts vals ! k)]) [length ts - 10..<length ts]))"
  proof (rule for_each_map_ok)
    fix k assume "k \<in> set [length ts - 10..<length ts]"
    then have k: "k < length ts" by simp
    then have "ymdhms clk (ts ! k div 1000) \<noteq> None" using assms(1) by simp
    then show "frame_table_row clk (JStr ?nm) (JArr (map JInt ts)) (JArr vals) (int k)
                 = Inr [?row (zip ts vals ! k)]"
      using k assms(2,3) by (simp add: frame_table_row_at)
  qed
  also have "concat (map (\<lambda>k. [?row (zip ts vals ! k)]) [length ts - 10..<length ts])
               = map ?row (map ((!) (zip ts vals)) [length (zip ts vals) - 10..<length (zip ts vals)])"
    using assms(2) by (simp add: o_def min_def)
  also have "\<dots> = map ?row (last_n 10 (zip ts vals))"
    by (simp only: last_n_nth)
  finally show ?thesis by (simp only: frame_rows_start)
qed

lemma frame_rows_short:
  assumes "\<forall>t\<in>set ts. ymdhms clk (t div 1000) \<noteq> None" "length vals < length ts"
      and "\<forall>v\<in>set vals. float_exact v"
  shows "frame_table_rows clk (frame_json name ts vals) = Inl (IndexError ''list index out of range'')"
proof -
  let ?nm = "case name of Some n \<Rightarrow> n | None \<Rightarrow> ''Series''"
  let ?body = "frame_table_row clk (JStr ?nm) (JArr (map JInt ts)) (JArr vals)"
  let ?e = "IndexError ''list index out of range''"
  have at: "\<And>k. k < length ts \<Longrightarrow> ?body (int k)
      = (if k < length vals
         then Inr [table_row (reading (ymdhms clk (ts ! k div 1000))) ?nm (exact_text (vals ! k))]
         else Inl ?e)"
    using assms(1,3) by (simp add: frame_table_row_at)
  have "for_each ?body (map int [length ts - 10..<length ts]) = Inl ?e"
  proof (rule for_each_fails)
    fix x assume "x \<in> set (map int [length ts - 10..<length ts])"
    then obtain k where "x = int k" "k < length ts" by auto
    then show "?body x = Inl ?e \<or> (\<exists>ls. ?body x = Inr ls)" using at [of k] by auto
  next
    have "length ts - 1 < length ts" "\<not> length ts - 1 < length vals" using assms(2) by auto
    then have "?body (int (length ts - 1)) = Inl ?e" using at [of "length ts - 1"] by simp
    moreover have "length ts - 1 \<in> set [length ts - 10..<length ts]"
      using assms(2) by auto
    then have "int (length ts - 1) \<in> set (map int [length ts - 10..<length ts])"
      unfolding set_map by (rule imageI)
    ultimately show "\<exists>x\<in>set (map int [length ts - 10..<length ts]). ?body x = Inl ?e" by blast
  qed
  then show ?thesis by (simp only: frame_rows_start)
qed

lemma native_table_row_at:
  "hms clk t \<noteq> None \<Longrightarrow>
   native_table_row clk nm (JArr [JInt t, v])
     = Inr [table_row (reading (hms clk t)) (take 30 nm) (py_str v)]"
  by (simp add: native_table_row_def render_time_reading table_row_def)

lemma native_rows_start:
  assumes "0 < max_points"
  shows "native_table_rows clk max_points (native_series metric points)
           = for_each (native_table_row clk (spec_metric_name metric))
               (map (\<lambda>p. JArr [JInt (fst p), snd p]) (last_n (nat max_points) points))"
  using assms
  by (simp add: native_table_rows_def native_series_def spec_metric_name_def label_def
                slice_from_last_n last_n_map Let_def)

lemma native_rows_ok:
  assumes "0 < max_points" "\<forall>p\<in>set points. hms clk (fst p) \<noteq> None"
  shows "native_table_rows clk max_points (native_series metric points)
           = Inr (map (\<lambda>p. table_row (reading (hms clk (fst p))) (take 30 (spec_metric_name metric))
                             (py_str (snd p)))
                      (last_n (nat max_points) points))"
proof -
  let ?row = "\<lambda>p. table_row (reading (hms clk (fst p))) (take 30 (spec_metric_name metric)) (py_str (snd p))"
  have "for_each (native_table_row clk (spec_metric_name metric))
          (map (\<lambda>p. JArr [JInt (fst p), snd p]) (last_n (nat max_points) points))
        = Inr (concat (map (\<lambda>p. [?row p]) (last_n (nat max_points) points)))"
  proof (rule for_each_map_ok)
    fix p assume "p \<in> set (last_n (nat max_points) points)"
    then have "p \<in> set points" by (auto simp: last_n_def dest: in_set_dropD)
    then have "hms clk (fst p) \<noteq> None" using assms(2) by blast
    then show "native_table_row clk (spec_metric_name metric) (JArr [JInt (fst p), snd p]) = Inr [?row p]"
      by (rule native_table_row_at)
  qed
  then have "for_each (native_table_row clk (spec_metric_name metric))
          (map (\<lambda>p. JArr [JInt (fst p), snd p]) (last_n (nat max_points) points))
        = Inr (map ?row (last_n (nat max_points) points))"
    by simp
  then show ?thesis by (simp only: native_rows_start [OF assms(1)])
qed

lemma series_table_row_at:
  "ymdhms clk (t div 1000) \<noteq> None \<Longrightarrow> float_exact v \<Longrightarrow>
   series_table_row clk (JStr nm) (JArr [v, JInt t])
     = Inr [table_row (reading (ymdhms clk (t div 1000))) (take 40 nm @ ''...'') (exact_text v)]"
  by (simp add: series_table_row_def list_index_def render_time_reading table_row_def slice_to_def
                value_text_exact)

lemma legacy_rows_ok:
  assumes "\<forall>p\<in>set points. ymdhms clk (snd p div 1000) \<noteq> None"
      and "\<forall>p\<in>set points. float_exact (fst p)"
  shows "series_table_rows clk (legacy_series name points)
           = Inr (map (\<lambda>p. table_row (reading (ymdhms clk (snd p div 1000))) (take 40 name @ ''...'')
                             (exact_text (fst p)))
                      (last_n 5 points))"
proof -
  let ?row = "\<lambda>p. table_row (reading (ymdhms clk (snd p div 1000))) (take 40 name @ ''...'') (exact_text (fst p))"
  have "for_each (series_table_row clk (JStr name))
          (map (\<lambda>p. JArr [fst p, JInt (snd p)]) (last_n 5 points))
        = Inr (concat (map (\<lambda>p. [?row p]) (last_n 5 points)))"
  proof (rule for_each_map_ok)
    fix p assume "p \<in> set (last_n 5 points)"
    then have "p \<in> set points" by (auto simp: last_n_def dest: in_set_dropD)
    then have "ymdhms clk (snd p div 1000) \<noteq> None" "float_exact (fst p)" using assms by blast+
    then show "series_table_row clk (JStr name) (JArr [fst p, JInt (snd p)]) = Inr [?row p]"
      by (rule series_table_row_at)
  qed
  moreover have "slice_from (map (\<lambda>p. JArr [fst p, JInt (snd p)]) points) (- 5)
                   = map (\<lambda>p. JArr [fst p, JInt (snd p)]) (last_n 5 points)"
    using slice_from_last_n [of 5 "map (\<lambda>p. JArr [fst p, JInt (snd p)]) points"]
    by (simp add: last_n_map)
  ultimately show ?thesis
    by (simp add: series_table_rows_def legacy_series_def)
qed

subsection \<open>Frames with columns of different lengths\<close>

lemma frames_table:
  assumes "frames \<noteq> []"
  shows "format_series_data clk (frames_payload frames) ''table''
           = (case for_each (frame_table_rows clk) frames of
                Inl (KeyError m) \<Rightarrow> Inr (error_text m (frames_payload frames))
              | Inl (IndexError m) \<Rightarrow> Inr (error_text m (frames_payload frames))
              | Inl e \<Rightarrow> Inl e
              | Inr lines \<Rightarrow> Inr (join [newline] (series_table_header @ lines)))"
  using assms
  by (simp add: format_series_data_def frames_payload_def format_series_try_def format_frames_def
                bnd_def
           split: sum.splits pyerr.splits)

text \<open>
  Claim C7, as the code has it.  Take a frames payload with at least one frame, every
  frame with a column of millisecond timestamps the clock can render and with values
  that are strings or integers below \<open>2\<^sup>5\<^sup>3\<close> in magnitude.  When in every frame the
  value column is at least as long as the timestamp column, the table pairs the two
  columns position by position over the timestamps (surplus values are dropped) and
  shows the last ten pairs of each frame, under the frame's declared name or under
  \<^verbatim>\<open>Series\<close> when it has none.  When in some frame the value column is the shorter one,
  no row is returned: the result is the text
  \<^verbatim>\<open>Error formatting data: list index out of range\<close> followed by the dump of the
  payload.
\<close>

theorem frame_columns_pairing:
  assumes "fs \<noteq> []"
      and "\<forall>f\<in>set fs. \<forall>t\<in>set (fst (snd f)). ymdhms clk (t div 1000) \<noteq> None"
      and "\<forall>f\<in>set fs. \<forall>v\<in>set (snd (snd f)). float_exact v"
  shows "((\<forall>f\<in>set fs. length (fst (snd f)) \<le> length (snd (snd f))) \<longrightarrow>
            format_series_data clk
              (frames_payload (map (\<lambda>f. frame_json (fst f) (fst (snd f)) (snd (snd f))) fs)) ''table''
            = Inr (join [newline] (series_table_header @ concat (map (spec_frame_rows clk) fs))))
       \<and> ((\<exists>f\<in>set fs. length (snd (snd f)) < length (fst (snd f))) \<longrightarrow>
            format_series_data clk
              (frames_payload (map (\<lambda>f. frame_json (fst f) (fst (snd f)) (snd (snd f))) fs)) ''table''
            = Inr (''Error formatting data: list index out of range'' @ [newline]
                   @ json_dumps
                       (frames_payload (map (\<lambda>f. frame_json (fst f) (fst (snd f)) (snd (snd f))) fs))))"
proof (intro conjI impI)
  let ?enc = "\<lambda>f. frame_json (fst f) (fst (snd f)) (snd (snd f))"
  have ne: "map ?enc fs \<noteq> []" using assms(1) by simp
  {
    assume le: "\<forall>f\<in>set fs. length (fst (snd f)) \<le> length (snd (snd f))"
    have "for_each (frame_table_rows clk) (map ?enc fs) = Inr (concat (map (spec_frame_rows clk) fs))"
    proof (rule for_each_map_ok)
      fix f assume f: "f \<in> set fs"
      have "frame_table_rows clk (frame_json (fst f) (fst (snd f)) (snd (snd f)))
              = Inr (map (\<lambda>p. table_row (reading (ymdhms clk (fst p div 1000)))
                             (case fst f of Some n \<Rightarrow> n | None \<Rightarrow> ''Series'')
                             (exact_text (snd p)))
                      (last_n 10 (zip (fst (snd f)) (snd (snd f)))))"
        using f assms(2,3) le by (intro frame_rows_ok) auto
      then show "frame_table_rows clk (?enc f) = Inr (spec_frame_rows clk f)"
        by (simp add: spec_frame_rows_def)
    qed
    then show "format_series_data clk (frames_payload (map ?enc fs)) ''table''
            = Inr (join [newline] (series_table_header @ concat (map (spec_frame_rows clk) fs)))"
      by (simp add: frames_table [OF ne])
  }
  {
    assume short: "\<exists>f\<in>set fs. length (snd (snd f)) < length (fst (snd f))"
    let ?e = "IndexError ''list index out of range''"
    have each: "\<And>f. f \<in> set fs \<Longrightarrow>
        frame_table_rows clk (?enc f) = Inl ?e \<or> (\<exists>ls. frame_table_rows clk (?enc f) = Inr ls)"
    proof -
      fix f assume f: "f \<in> set fs"
      then have ok: "\<forall>t\<in>set (fst (snd f)). ymdhms clk (t div 1000) \<noteq> None" using assms(2) by blast
      have fe: "\<forall>v\<in>set (snd (snd f)). float_exact v" using f assms(3) by blast
      show "frame_table_rows clk (?enc f) = Inl ?e \<or> (\<exists>ls. frame_table_rows clk (?enc f) = Inr ls)"
      proof (cases "length (fst (snd f)) \<le> length (snd (snd f))")
        case True
        then show ?thesis using frame_rows_ok [OF ok _ fe] by blast
      next
        case False
        then have "length (snd (snd f)) < length (fst (snd f))" by simp
        then show ?thesis using frame_rows_short [OF ok _ fe] by blast
      qed
    qed
    have "for_each (frame_table_rows clk) (map ?enc fs) = Inl ?e"
    proof (rule for_each_fails)
      fix x assume "x \<in> set (map ?enc fs)"
      then obtain f where "f \<in> set fs" "x = ?enc f" by auto
      then show "frame_table_rows clk x = Inl ?e \<or> (\<exists>ls. frame_table_rows clk x = Inr ls)"
        using each by blast
    next
      obtain f where f: "f \<in> set fs" "length (snd (snd f)) < length (fst (snd f))"
        using short by blast
      then have ok: "\<forall>t\<in>set (fst (snd f)). ymdhms clk (t div 1000) \<noteq> None" using assms(2) by blast
      have fe: "\<forall>v\<in>set (snd (snd f)). float_exact v" using f(1) assms(3) by blast
      have "frame_table_rows clk (?enc f) = Inl ?e" using frame_rows_short [OF ok f(2) fe] .
      then show "\<exists>x\<in>set (map ?enc fs). frame_table_rows clk x = Inl ?e" using f(1) by auto
    qed
    then show "format_series_data clk (frames_payload (map ?enc fs)) ''table''
            = Inr (''Error formatting data: list index out of range'' @ [newline]
                   @ json_dumps (frames_payload (map ?enc fs)))"
      by (simp add: frames_table [OF ne] error_text_def)
  }
qed

subsection \<open>Table rows in the three shapes\<close>

text \<open>
  Claim C5, as the code has it.  The rows of one series in \<^verbatim>\<open>table\<close> mode, in source
  order, for timestamps the clock can render.  Native envelope: the last
  \<^verbatim>\<open>max_points\<close> points (for a positive \<^verbatim>\<open>max_points\<close>), the value as it is, the
  first 30 characters of the name and no ellipsis.  Gateway frames, when the value
  column is at least as long as the timestamp column: the last ten pairs of the two
  columns, the name in full.  Gateway series: the last five points, and a name longer
  than 40 characters cut to 40 characters and followed by an ellipsis.  On the two
  gateway shapes the values are strings or integers below \<open>2\<^sup>5\<^sup>3\<close> in magnitude;
  such an integer is printed with two decimals and a string as it is.
\<close>

theorem table_rows_by_shape:
  "(0 < max_points \<and> (\<forall>p\<in>set points. hms clk (fst p) \<noteq> None) \<longrightarrow>
      native_table_rows clk max_points (native_series metric points)
        = Inr (map (\<lambda>p. table_row (reading (hms clk (fst p))) (take 30 (spec_metric_name metric))
                          (py_str (snd p)))
                   (last_n (nat max_points) points)))
   \<and> ((\<forall>t\<in>set ts. ymdhms clk (t div 1000) \<noteq> None) \<and> length ts \<le> length vals
        \<and> (\<forall>v\<in>set vals. float_exact v) \<longrightarrow>
      frame_table_rows clk (frame_json name ts vals)
        = Inr (map (\<lambda>p. table_row (reading (ymdhms clk (fst p div 1000)))
                          (case name of Some n \<Rightarrow> n | None \<Rightarrow> ''Series'')
                          (exact_text (snd p)))
                   (last_n 10 (zip ts vals))))
   \<and> ((\<forall>p\<in>set lpoints. ymdhms clk (snd p div 1000) \<noteq> None \<and> float_exact (fst p))
        \<and> 40 < length lname \<longrightarrow>
      series_table_rows clk (legacy_series lname lpoints)
        = Inr (map (\<lambda>p. table_row (reading (ymdhms clk (snd p div 1000))) (take 40 lname @ ''...'')
                          (exact_text (fst p)))
                   (last_n 5 lpoints)))
   \<and> (\<bar>i\<bar> < 2 ^ 53 \<longrightarrow>
        value_text (JInt i) = Inr (str_int i @ ''.00'') \<and> exact_text (JInt i) = str_int i @ ''.00'')
   \<and> value_text (JStr s) = Inr s \<and> exact_text (JStr s) = s"
proof -
  have v: "\<bar>i\<bar> < 2 ^ 53 \<Longrightarrow> value_text (JInt i) = Inr (str_int i @ ''.00'')"
    using value_text_exact [of "JInt i"] by (simp add: exact_text_def)
  show ?thesis
    using native_rows_ok [of max_points points clk metric] frame_rows_ok [of ts clk vals name]
      legacy_rows_ok [of lpoints clk lname] v
    by (simp add: value_text_def exact_text_def)
qed

subsection \<open>Concrete tables, on a clock in UTC\<close>

lemma utc_defined: "in_datetime_range t \<Longrightarrow> hms utc_clock t \<noteq> None \<and> ymdhms utc_clock t \<noteq> None"
  by (simp add: utc_clock_def utc_hms_def utc_ymdhms_def split: prod.splits)

text \<open>
  A frame without a name whose value column is the longer one, and a frame whose value
  column is the shorter one.
\<close>

theorem frame_columns_pairing_witness:
  "format_series_data utc_clock
     (frames_payload [frame_json None [60000, 75000] [JInt 1, JStr ''n/a'', JInt 3]]) ''table''
     = Inr ''| Time | Series | Value |\<newline>|------|--------|-------|\<newline>| 1970-01-01 00:01:00 | Series | 1.00 |\<newline>| 1970-01-01 00:01:15 | Series | n/a |''
   \<and> format_series_data utc_clock
       (frames_payload [frame_json (Some ''cpu'') [60000, 75000] [JInt 1]]) ''table''
     = Inr (''Error formatting data: list index out of range'' @ [newline]
            @ json_dumps (frames_payload [frame_json (Some ''cpu'') [60000, 75000] [JInt 1]]))"
proof -
  let ?a = "[(None, [60000, 75000], [JInt 1, JStr ''n/a'', JInt 3])]
              :: (string option \<times> int list \<times> json list) list"
  let ?b = "[(Some ''cpu'', [60000, 75000], [JInt 1])] :: (string option \<times> int list \<times> json list) list"
  have r: "in_datetime_range 60" "in_datetime_range 75" by (simp_all add: in_datetime_range_def)
  have a1: "?a \<noteq> []" and b1: "?b \<noteq> []" by simp_all
  have a2: "\<forall>f\<in>set ?a. \<forall>t\<in>set (fst (snd f)). ymdhms utc_clock (t div 1000) \<noteq> None"
    using r utc_defined by simp
  have b2: "\<forall>f\<in>set ?b. \<forall>t\<in>set (fst (snd f)). ymdhms utc_clock (t div 1000) \<noteq> None"
    using r utc_defined by simp
  have a3: "\<forall>f\<in>set ?a. length (fst (snd f)) \<le> length (snd (snd f))" by simp
  have a4: "\<forall>f\<in>set ?a. \<forall>v\<in>set (snd (snd f)). float_exact v" by simp
  have b4: "\<forall>f\<in>set ?b. \<forall>v\<in>set (snd (snd f)). float_exact v" by simp
  have b3: "\<exists>f\<in>set ?b. length (snd (snd f)) < length (fst (snd f))" by simp
  have rows: "join [newline] (series_table_header @ concat (map (spec_frame_rows utc_clock) ?a))
      = ''| Time | Series | Value |\<newline>|------|--------|-------|\<newline>| 1970-01-01 00:01:00 | Series | 1.00 |\<newline>| 1970-01-01 00:01:15 | Series | n/a |''"
    by code_simp
  show ?thesis
    using frame_columns_pairing [OF a1 a2 a4] a3 frame_columns_pairing [OF b1 b2 b4] b3 rows
    by simp
qed

text \<open>
  Claim C7 as stated fails: with three timestamps and two values the columns are not
  paired over the shorter length; the formatter returns the error text and no row.
\<close>

theorem shorter_value_column_counterexample:
  "format_series_data utc_clock
     (JObj [(''results'', JObj [(''A'', JObj [(''frames'', JArr
        [JObj [(''schema'', JObj [(''name'', JStr ''cpu'')]),
               (''data'', JObj [(''values'',
                  JArr [JArr [JInt 1000, JInt 2000, JInt 3000], JArr [JInt 10, JInt 20]])])]])])])])
     ''table''
   = Inr (''Error formatting data: list index out of range'' @ [newline]
          @ json_dumps
              (JObj [(''results'', JObj [(''A'', JObj [(''frames'', JArr
                 [JObj [(''schema'', JObj [(''name'', JStr ''cpu'')]),
                        (''data'', JObj [(''values'',
                           JArr [JArr [JInt 1000, JInt 2000, JInt 3000],
                                 JArr [JInt 10, JInt 20]])])]])])])]))"
  by code_simp

text \<open>One series in each shape.\<close>

theorem table_rows_by_shape_witness:
  "native_table_rows utc_clock 2
      (native_series [(''job'', JStr ''node''), (''instance'', JStr ''a:9100'')]
         [(60, JStr ''1''), (75, JStr ''2''), (90, JStr ''3'')])
     = Inr [''| 00:01:15 | node/a:9100 | 2 |'', ''| 00:01:30 | node/a:9100 | 3 |'']
   \<and> frame_table_rows utc_clock (frame_json (Some ''cpu'') [60000, 75000] [JInt 1, JStr ''x''])
     = Inr [''| 1970-01-01 00:01:00 | cpu | 1.00 |'', ''| 1970-01-01 00:01:15 | cpu | x |'']
   \<and> series_table_rows utc_clock
       (legacy_series ''a-series-name-that-is-longer-than-forty-characters'' [(JInt 5, 60000)])
     = Inr [''| 1970-01-01 00:01:00 | a-series-name-that-is-longer-than-forty-... | 5.00 |'']
   \<and> value_text (JInt 5) = Inr ''5.00''
   \<and> value_text (JStr ''n/a'') = Inr ''n/a''"
proof -
  let ?m = "[(''job'', JStr ''node''), (''instance'', JStr ''a:9100'')]"
  let ?p = "[(60, JStr ''1''), (75, JStr ''2''), (90, JStr ''3'')] :: (int \<times> json) list"
  let ?n = "''a-series-name-that-is-longer-than-forty-characters''"
  let ?l = "[(JInt 5, 60000)] :: (json \<times> int) list"
  have r: "in_datetime_range 60" "in_datetime_range 75" "in_datetime_range 90"
    by (simp_all add: in_datetime_range_def)
  have h1: "(0::int) < 2 \<and> (\<forall>p\<in>set ?p. hms utc_clock (fst p) \<noteq> None)"
    using r utc_defined by simp
  have h2: "(\<forall>t\<in>set [60000, 75000]. ymdhms utc_clock (t div 1000) \<noteq> None)
            \<and> length [60000, 75000 :: int] \<le> length [JInt 1, JStr ''x'']
            \<and> (\<forall>v\<in>set [JInt 1, JStr ''x'']. float_exact v)"
    using r utc_defined by simp
  have h3: "(\<forall>p\<in>set ?l. ymdhms utc_clock (snd p div 1000) \<noteq> None \<and> float_exact (fst p))
            \<and> 40 < length ?n"
    using r utc_defined by simp
  have h4: "\<bar>5::int\<bar> < 2 ^ 53" by simp
  have e4: "str_int 5 = ''5''" by code_simp
  have e1: "map (\<lambda>p. table_row (reading (hms utc_clock (fst p))) (take 30 (spec_metric_name ?m))
                          (py_str (snd p))) (last_n (nat 2) ?p)
      = [''| 00:01:15 | node/a:9100 | 2 |'', ''| 00:01:30 | node/a:9100 | 3 |'']"
    by code_simp
  have e2: "map (\<lambda>p. table_row (reading (ymdhms utc_clock (fst p div 1000)))
                          (case Some ''cpu'' of Some n \<Rightarrow> n | None \<Rightarrow> ''Series'')
                          (exact_text (snd p)))
                   (last_n 10 (zip [60000, 75000] [JInt 1, JStr ''x'']))
      = [''| 1970-01-01 00:01:00 | cpu | 1.00 |'', ''| 1970-01-01 00:01:15 | cpu | x |'']"
    by code_simp
  have e3: "map (\<lambda>p. table_row (reading (ymdhms utc_clock (snd p div 1000))) (take 40 ?n @ ''...'')
                          (exact_text (fst p))) (last_n 5 ?l)
      = [''| 1970-01-01 00:01:00 | a-series-name-that-is-longer-than-forty-... | 5.00 |'']"
    by code_simp
  note T = table_rows_by_shape [where clk = utc_clock and max_points = 2 and points = ?p
      and metric = ?m and ts = "[60000, 75000]" and vals = "[JInt 1, JStr ''x'']"
      and name = "Some ''cpu''" and lname = ?n and lpoints = ?l and i = 5 and s = "''n/a''"]
  show ?thesis
    using T h1 h2 h3 h4 unfolding e1 e2 e3 e4 by simp
qed

text \<open>
  Claim C5 as stated fails on the native envelope: the numeric value 1 is printed as
  \<^verbatim>\<open>1\<close>, not with two decimals, and the name of 53 characters is cut to 30
  characters with no ellipsis.
\<close>

theorem native_table_counterexample:
  "format_prometheus_result utc_clock
     (native_envelope
        [native_series [(''job'', JStr ''node-exporter-production''),
                        (''instance'', JStr ''server-0123.example.org:9100'')]
           [(60, JInt 1)]])
     ''table'' 20 10
   = Inr ''| Time | Metric | Value |\<newline>|------|--------|-------|\<newline>| 00:01:00 | node-exporter-production/serve | 1 |''"
  by code_simp

end
